theory Spec2Isabelle
  imports Complex_Main
begin

section \<open>JavaScript strings\<close>

text \<open>
  A JavaScript string is a sequence of UTF-16 code units. The application handles
  Ukrainian and Russian text, so the 8-bit \<open>char\<close> of HOL is too small: a code unit is
  modelled by its numeric value. The string literals of the source that contain Cyrillic
  letters are written as lists of code units; ASCII literals go through \<open>ascii\<close>.
  (The copy of the source under study stores every Cyrillic letter double-encoded; the
  literals below are the decoded ones, for instance the character class of the first
  Ukrainian pattern reads U+0430 - U+044F, U+0454, U+0456, U+0457, U+0491.)
\<close>

type_synonym jchar = nat
type_synonym jstring = "jchar list"

definition ascii :: "string \<Rightarrow> jstring" where
  "ascii s = map of_char s"

text \<open>\<open>WhiteSpace\<close> and \<open>LineTerminator\<close> of ECMAScript: what \<open>String.prototype.trim\<close>
  strips and what \<open>\s\<close> matches.\<close>

definition isSpace :: "jchar \<Rightarrow> bool" where
  "isSpace c = (c = 9 \<or> c = 10 \<or> c = 11 \<or> c = 12 \<or> c = 13 \<or> c = 32 \<or> c = 160
     \<or> c = 5760 \<or> (8192 \<le> c \<and> c \<le> 8202) \<or> c = 8232 \<or> c = 8233 \<or> c = 8239
     \<or> c = 8287 \<or> c = 12288 \<or> c = 65279)"

definition trimStart :: "jstring \<Rightarrow> jstring" where
  "trimStart s = dropWhile isSpace s"

definition trimEnd :: "jstring \<Rightarrow> jstring" where
  "trimEnd s = rev (dropWhile isSpace (rev s))"

definition trim :: "jstring \<Rightarrow> jstring" where
  "trim s = trimEnd (trimStart s)"

text \<open>\<open>s.split(c)\<close> for a one-character separator: never the empty array.\<close>

fun splitOn :: "jchar \<Rightarrow> jstring \<Rightarrow> jstring list" where
  "splitOn c [] = [[]]"
| "splitOn c (x # xs) =
     (if x = c then [] # splitOn c xs
      else (case splitOn c xs of [] \<Rightarrow> [[x]] | y # ys \<Rightarrow> (x # y) # ys))"

definition startsWith :: "jstring \<Rightarrow> jstring \<Rightarrow> bool" where
  "startsWith s p = (take (length p) s = p)"

text \<open>\<open>xs[i]\<close> on an array: \<open>undefined\<close> out of range.\<close>

fun nth_opt :: "'a list \<Rightarrow> nat \<Rightarrow> 'a option" where
  "nth_opt [] i = None"
| "nth_opt (x # xs) 0 = Some x"
| "nth_opt (x # xs) (Suc i) = nth_opt xs i"

text \<open>
  \<open>String.prototype.toLowerCase\<close>, on the code units that have a one-unit lower case in the
  Basic Latin, Latin-1 and Cyrillic blocks, and the two code units outside these blocks
  whose lower case begins with an ASCII letter (KELVIN SIGN and LATIN CAPITAL LETTER I WITH
  DOT ABOVE); every other code unit is left as it is.
\<close>

definition lowerUnit :: "jchar \<Rightarrow> jstring" where
  "lowerUnit c =
     (if 65 \<le> c \<and> c \<le> 90 then [c + 32]
      else if 192 \<le> c \<and> c \<le> 222 \<and> c \<noteq> 215 then [c + 32]
      else if 1024 \<le> c \<and> c \<le> 1039 then [c + 80]
      else if 1040 \<le> c \<and> c \<le> 1071 then [c + 32]
      else if c = 1168 then [1169]
      else if c = 8490 then [107]
      else if c = 304 then [105, 775]
      else [c])"

definition toLowerCase :: "jstring \<Rightarrow> jstring" where
  "toLowerCase s = concat (map lowerUnit s)"


section \<open>Language Detector\<close>

datatype language = EN | RU | UK

text \<open>
  The patterns carry the flag \<open>i\<close> and not the flag \<open>u\<close>: two code units match when
  their canonical forms agree, the canonical form being the one-unit upper case, except
  that a non-ASCII unit is never mapped to an ASCII one. \<open>canonicalize\<close> gives it on the
  units whose canonical form is a letter of the patterns.
\<close>

definition canonicalize :: "jchar \<Rightarrow> jchar" where
  "canonicalize c =
     (if 97 \<le> c \<and> c \<le> 122 then c - 32
      else if 1072 \<le> c \<and> c \<le> 1103 then c - 32
      else if 1104 \<le> c \<and> c \<le> 1119 then c - 80
      else if c = 1169 then 1168
      else if c = 7296 then 1042
      else if c = 7297 then 1044
      else if c = 7298 then 1054
      else if c = 7299 then 1057
      else if c = 7300 \<or> c = 7301 then 1058
      else if c = 7302 then 1066
      else c)"

text \<open>The word characters of \<open>\b\<close>: ASCII letters, digits and the underscore.\<close>

definition isWordChar :: "jchar \<Rightarrow> bool" where
  "isWordChar c = ((97 \<le> c \<and> c \<le> 122) \<or> (65 \<le> c \<and> c \<le> 90) \<or> (48 \<le> c \<and> c \<le> 57) \<or> c = 95)"

definition isWordOpt :: "jchar option \<Rightarrow> bool" where
  "isWordOpt p = (case p of None \<Rightarrow> False | Some c \<Rightarrow> isWordChar c)"

definition wordBoundary :: "jchar option \<Rightarrow> jchar option \<Rightarrow> bool" where
  "wordBoundary prev after = (isWordOpt prev \<noteq> isWordOpt after)"

definition headOpt :: "'a list \<Rightarrow> 'a option" where
  "headOpt xs = (case xs of [] \<Rightarrow> None | x # _ \<Rightarrow> Some x)"

definition lastOpt :: "'a option \<Rightarrow> 'a list \<Rightarrow> 'a option" where
  "lastOpt prev xs = (case rev xs of [] \<Rightarrow> prev | x # _ \<Rightarrow> Some x)"

text \<open>The keyword \<open>k\<close> matches at the front of \<open>s\<close>, ignoring case.\<close>

definition keywordHere :: "jstring \<Rightarrow> jstring \<Rightarrow> bool" where
  "keywordHere k s =
     (length k \<le> length s \<and> map canonicalize (take (length k) s) = map canonicalize k)"

text \<open>\<open>\b(k1|k2|...)\b\<close> matches at the front of \<open>s\<close>, the unit before \<open>s\<close> being \<open>prev\<close>.\<close>

definition alternativesHere :: "jstring list \<Rightarrow> jchar option \<Rightarrow> jstring \<Rightarrow> bool" where
  "alternativesHere ks prev s =
     (wordBoundary prev (headOpt s) \<and>
      list_ex (\<lambda>k. keywordHere k s \<and>
                   wordBoundary (lastOpt prev (take (length k) s)) (headOpt (drop (length k) s))) ks)"

fun searchKeywords :: "jstring list \<Rightarrow> jchar option \<Rightarrow> jstring \<Rightarrow> bool" where
  "searchKeywords ks prev [] = alternativesHere ks prev []"
| "searchKeywords ks prev (c # cs) =
     (alternativesHere ks prev (c # cs) \<or> searchKeywords ks (Some c) cs)"

definition testKeywords :: "jstring list \<Rightarrow> jstring \<Rightarrow> bool" where
  "testKeywords ks text = searchKeywords ks None text"

definition ukKeywords :: "jstring list" where
  "ukKeywords =
  [[1087, 1088, 1086, 1076, 1072, 1078],
   [1082, 1091, 1087, 1080, 1090, 1080],
   [1087, 1086, 1089, 1083, 1091, 1075, 1080],
   [1090, 1086, 1074, 1072, 1088],
   [1082, 1086, 1084, 1087, 1072, 1085, 1110, 1103],
   [1073, 1110, 1079, 1085, 1077, 1089],
   [1074, 1072, 1088, 1090, 1110, 1089, 1090, 1100],
   [1094, 1110, 1085, 1072],
   [1079, 1072, 1084, 1086, 1074, 1080, 1090, 1080],
   [1079, 1074, 39, 1103, 1079, 1072, 1090, 1080, 1089, 1103],
   [1076, 1086, 1087, 1086, 1084, 1086, 1075, 1072],
   [1110, 1085, 1092, 1086, 1088, 1084, 1072, 1094, 1110, 1103]]"

definition ruKeywords :: "jstring list" where
  "ruKeywords =
  [[1087, 1088, 1086, 1076, 1072, 1078, 1072],
   [1082, 1091, 1087, 1080, 1090, 1100],
   [1091, 1089, 1083, 1091, 1075, 1080],
   [1090, 1086, 1074, 1072, 1088],
   [1082, 1086, 1084, 1087, 1072, 1085, 1080, 1103],
   [1073, 1080, 1079, 1085, 1077, 1089],
   [1089, 1090, 1086, 1080, 1084, 1086, 1089, 1090, 1100],
   [1094, 1077, 1085, 1072],
   [1079, 1072, 1082, 1072, 1079, 1072, 1090, 1100],
   [1089, 1074, 1103, 1079, 1072, 1090, 1100, 1089, 1103],
   [1087, 1086, 1084, 1086, 1097, 1100],
   [1080, 1085, 1092, 1086, 1088, 1084, 1072, 1094, 1080, 1103]]"

definition enKeywords :: "jstring list" where
  "enKeywords = map ascii [''buy'', ''sell'', ''service'', ''product'', ''company'',
     ''business'', ''price'', ''order'', ''contact'', ''help'', ''information'']"

text \<open>\<open>ukPatterns[0]\<close>: some unit of the text is in the Ukrainian character class.\<close>

definition ukClass :: "jchar \<Rightarrow> bool" where
  "ukClass c = (let u = canonicalize c in
     (1040 \<le> u \<and> u \<le> 1071) \<or> u = 1028 \<or> u = 1030 \<or> u = 1031 \<or> u = 1168)"

definition ukPattern0 :: "jstring \<Rightarrow> bool" where
  "ukPattern0 text = list_ex ukClass text"

definition ukPattern1 :: "jstring \<Rightarrow> bool" where
  "ukPattern1 text = testKeywords ukKeywords text"

text \<open>\<open>ruPatterns[0]\<close>: the Russian character class, with U+0451.\<close>

definition ruClass :: "jchar \<Rightarrow> bool" where
  "ruClass c = (let u = canonicalize c in (1040 \<le> u \<and> u \<le> 1071) \<or> u = 1025)"

definition ruPattern0 :: "jstring \<Rightarrow> bool" where
  "ruPattern0 text = list_ex ruClass text"

definition ruPattern1 :: "jstring \<Rightarrow> bool" where
  "ruPattern1 text = testKeywords ruKeywords text"

text \<open>\<open>enPatterns[0]\<close>: the whole text, not empty, is ASCII letters and white space.\<close>

definition enClass :: "jchar \<Rightarrow> bool" where
  "enClass c = ((let u = canonicalize c in 65 \<le> u \<and> u \<le> 90) \<or> isSpace c)"

definition enPattern0 :: "jstring \<Rightarrow> bool" where
  "enPattern0 text = (text \<noteq> [] \<and> list_all enClass text)"

definition enPattern1 :: "jstring \<Rightarrow> bool" where
  "enPattern1 text = testKeywords enKeywords text"

text \<open>The three counting loops.\<close>

definition score :: "bool \<Rightarrow> bool \<Rightarrow> nat" where
  "score p0 p1 = (if p0 then 1 else 0) + (if p1 then 1 else 0)"

definition ukScore :: "jstring \<Rightarrow> nat" where
  "ukScore text = score (ukPattern0 text) (ukPattern1 text)"

definition ruScore :: "jstring \<Rightarrow> nat" where
  "ruScore text = score (ruPattern0 text) (ruPattern1 text)"

definition enScore :: "jstring \<Rightarrow> nat" where
  "enScore text = score (enPattern0 text) (enPattern1 text)"

text \<open>The argument is \<open>None\<close> for \<open>undefined\<close> and \<open>null\<close>. \<open>!text\<close> holds for these and
  for the empty string. The patterns are tested on \<open>text\<close> itself; \<open>textLower\<close> is computed
  and never read.\<close>

definition detectLanguage :: "jstring option \<Rightarrow> language" where
  "detectLanguage arg =
     (case arg of
        None \<Rightarrow> UK
      | Some text \<Rightarrow>
          if text = [] then UK
          else if enScore text > 0 \<and> \<not> ukPattern0 text \<and> \<not> ruPattern0 text then EN
          else if ruScore text > ukScore text then RU
          else if ukScore text > 0 then UK
          else UK)"

section \<open>Batch Item Parser\<close>

record work_item =
  url :: jstring
  topic :: jstring
  keyword :: jstring
  language :: language
  target_audience :: "jstring option"
  user_query :: jstring

text \<open>Form values are strings or \<open>null\<close>. A value is truthy when it is a string that is
  not empty; \<open>a || b\<close> is \<open>orElse a b\<close> when \<open>b\<close> is a string.\<close>

definition truthy :: "jstring option \<Rightarrow> bool" where
  "truthy v = (case v of None \<Rightarrow> False | Some s \<Rightarrow> s \<noteq> [])"

definition orElse :: "jstring option \<Rightarrow> jstring \<Rightarrow> jstring" where
  "orElse v d = (case v of None \<Rightarrow> d | Some s \<Rightarrow> if s \<noteq> [] then s else d)"

text \<open>A value inside a template literal.\<close>

definition interpolate :: "jstring option \<Rightarrow> jstring" where
  "interpolate v = (case v of None \<Rightarrow> ascii ''null'' | Some s \<Rightarrow> s)"

subsection \<open>The instruction strings\<close>

definition contentPrefix :: jstring where
  "contentPrefix =
     [1057, 1090, 1074, 1086, 1088, 1080, 32, 1082, 1086, 1085, 1090, 1077, 1085, 1090, 32,
     1076, 1083, 1103, 32]"

definition keywordInfix :: jstring where
  "keywordInfix =
     [32, 1079, 32, 1082, 1083, 1102, 1095, 1086, 1074, 1080, 1084, 32, 1089, 1083, 1086,
     1074, 1086, 1084, 32, 34]"

definition brandInfix :: jstring where
  "brandInfix =
     [34, 32, 1076, 1083, 1103, 32, 1073, 1088, 1077, 1085, 1076, 1091, 32]"

definition metaPrefix :: jstring where
  "metaPrefix =
     [1057, 1090, 1074, 1086, 1088, 1080, 32, 1090, 1110, 1083, 1100, 1082, 1080, 32, 1084,
     1077, 1090, 1072, 45, 1090, 1077, 1075, 1080, 32, 40, 84, 105, 116, 108, 101, 32, 1090,
     1072, 32, 68, 101, 115, 99, 114, 105, 112, 116, 105, 111, 110, 41, 32, 1076, 1083, 1103,
     32]"

definition metaSuffix :: jstring where
  "metaSuffix =
     [41, 46, 32, 1041, 1077, 1079, 32, 1075, 1077, 1085, 1077, 1088, 1072, 1094, 1110, 1111,
     32, 1090, 1077, 1082, 1089, 1090, 1091, 32, 1082, 1086, 1085, 1090, 1077, 1085, 1090,
     1091, 46]"

definition audiencePrefix :: jstring where
  "audiencePrefix =
     [32, 1062, 1110, 1083, 1100, 1086, 1074, 1072, 32, 1072, 1091, 1076, 1080, 1090, 1086,
     1088, 1110, 1103, 58, 32]"

definition autoPrefix :: jstring where
  "autoPrefix =
     [1047, 1075, 1077, 1085, 1077, 1088, 1091, 1081, 32, 1090, 1077, 1082, 1089, 1090, 32,
     1076, 1083, 1103, 32]"

definition autoInfix :: jstring where
  "autoInfix =
     [32, 1087, 1088, 1086, 32]"

definition audienceSuffix :: "jstring \<Rightarrow> jstring" where
  "audienceSuffix targetAudience =
     (if targetAudience \<noteq> [] then audiencePrefix @ targetAudience @ ascii ''.'' else [])"

definition contentQuery :: "jstring \<Rightarrow> jstring \<Rightarrow> jstring \<Rightarrow> jstring \<Rightarrow> jstring \<Rightarrow> jstring" where
  "contentQuery u t brand business targetAudience =
     contentPrefix @ u @ keywordInfix @ t @ brandInfix @ brand @ ascii '' ('' @ business
       @ ascii '')'' @ audienceSuffix targetAudience"

definition metaQuery :: "jstring \<Rightarrow> jstring \<Rightarrow> jstring \<Rightarrow> jstring \<Rightarrow> jstring \<Rightarrow> jstring" where
  "metaQuery u t brand business targetAudience =
     metaPrefix @ u @ keywordInfix @ t @ brandInfix @ brand @ ascii '' ('' @ business
       @ metaSuffix @ audienceSuffix targetAudience"

definition autoQuery :: "jstring \<Rightarrow> jstring \<Rightarrow> jstring" where
  "autoQuery u t = autoPrefix @ u @ autoInfix @ t"

definition pageData :: "jstring \<Rightarrow> jstring \<Rightarrow> jstring \<Rightarrow> jstring \<Rightarrow> work_item" where
  "pageData u t targetAudience userQuery =
     \<lparr> url = u, topic = t, keyword = t, language = detectLanguage (Some t),
       target_audience = (if targetAudience \<noteq> [] then Some targetAudience else None),
       user_query = userQuery \<rparr>"

subsection \<open>Simple-list mode\<close>

text \<open>The character class \<open>[^a-zA-Z\<dots>0-9]\<close> of the topic derivation, without the flag
  \<open>i\<close>: a unit is kept when it is an ASCII letter, a unit of U+0430 - U+044F or of
  U+0410 - U+042F, or an ASCII digit.\<close>

definition keptInTopic :: "jchar \<Rightarrow> bool" where
  "keptInTopic c = ((97 \<le> c \<and> c \<le> 122) \<or> (65 \<le> c \<and> c \<le> 90) \<or> (1072 \<le> c \<and> c \<le> 1103)
     \<or> (1040 \<le> c \<and> c \<le> 1071) \<or> (48 \<le> c \<and> c \<le> 57))"

definition replaceOthers :: "jstring \<Rightarrow> jstring" where
  "replaceOthers s = map (\<lambda>c. if keptInTopic c then c else 32) s"

definition lastPart :: "jstring \<Rightarrow> jstring" where
  "lastPart cleanUrl = last (splitOn 47 cleanUrl)"

definition derivedTopic :: "jstring \<Rightarrow> jstring" where
  "derivedTopic cleanUrl =
     (let t = trim (replaceOthers (lastPart cleanUrl)) in if t \<noteq> [] then t else ascii ''Page'')"

definition simpleTopic :: "jstring list \<Rightarrow> nat \<Rightarrow> jstring \<Rightarrow> jstring" where
  "simpleTopic keywords index cleanUrl =
     (case nth_opt keywords index of
        None \<Rightarrow> derivedTopic cleanUrl
      | Some k \<Rightarrow> if k \<noteq> [] \<and> trim k \<noteq> [] then trim k else derivedTopic cleanUrl)"

definition simpleQuery ::
  "jstring option \<Rightarrow> jstring option \<Rightarrow> jstring option \<Rightarrow> jstring \<Rightarrow> jstring \<Rightarrow> jstring \<Rightarrow> jstring" where
  "simpleQuery generationMode brandName businessType targetAudience cleanUrl t =
     (if generationMode = Some (ascii ''chatgpt'') \<and> truthy brandName \<and> truthy businessType
      then contentQuery cleanUrl t (interpolate brandName) (interpolate businessType) targetAudience
      else if generationMode = Some (ascii ''meta_only'') \<and> truthy brandName \<and> truthy businessType
      then metaQuery cleanUrl t (interpolate brandName) (interpolate businessType) targetAudience
      else autoQuery cleanUrl t)"

text \<open>The body of \<open>urls.forEach((url, index) => ...)\<close>, from \<open>index\<close> on.\<close>

fun simpleItems ::
  "jstring list \<Rightarrow> jstring option \<Rightarrow> jstring option \<Rightarrow> jstring option \<Rightarrow> jstring
     \<Rightarrow> nat \<Rightarrow> jstring list \<Rightarrow> work_item list" where
  "simpleItems keywords generationMode brandName businessType targetAudience index [] = []"
| "simpleItems keywords generationMode brandName businessType targetAudience index (u # urls) =
     (let cleanUrl = trim u;
          t = simpleTopic keywords index cleanUrl
      in (if cleanUrl \<noteq> []
          then [pageData cleanUrl t targetAudience
                  (simpleQuery generationMode brandName businessType targetAudience cleanUrl t)]
          else [])
         @ simpleItems keywords generationMode brandName businessType targetAudience (Suc index) urls)"

definition nonBlank :: "jstring \<Rightarrow> bool" where
  "nonBlank s = (trim s \<noteq> [])"

definition parseSimpleList ::
  "jstring \<Rightarrow> jstring option \<Rightarrow> jstring option \<Rightarrow> jstring option \<Rightarrow> jstring option \<Rightarrow> jstring
     \<Rightarrow> work_item list" where
  "parseSimpleList urlList keywordsList generationMode brandName businessType targetAudience =
     (let urls = filter nonBlank (splitOn 10 (trim urlList));
          keywords = (if truthy keywordsList
                      then filter nonBlank (splitOn 10 (trim (interpolate keywordsList)))
                      else [])
      in simpleItems keywords generationMode brandName businessType targetAudience 0 urls)"

subsection \<open>CSV and manual-text mode\<close>

definition csvQuery ::
  "jstring option \<Rightarrow> jstring option \<Rightarrow> jstring option \<Rightarrow> jstring \<Rightarrow> jstring list \<Rightarrow> jstring" where
  "csvQuery generationMode brandName businessType targetAudience parts =
     (let u = interpolate (nth_opt parts 0);
          t = interpolate (nth_opt parts 1);
          pageBrandName = orElse (nth_opt parts 2) (orElse brandName (ascii ''Brand''));
          pageBusinessType = orElse (nth_opt parts 3) (orElse businessType (ascii ''general''))
      in if generationMode = Some (ascii ''chatgpt'') \<and> length parts \<ge> 3
         then contentQuery u t pageBrandName pageBusinessType targetAudience
         else if generationMode = Some (ascii ''meta_only'') \<and> length parts \<ge> 3
         then metaQuery u t pageBrandName pageBusinessType targetAudience
         else autoQuery u t)"

definition csvItem ::
  "jstring option \<Rightarrow> jstring option \<Rightarrow> jstring option \<Rightarrow> jstring \<Rightarrow> jstring list \<Rightarrow> work_item" where
  "csvItem generationMode brandName businessType targetAudience parts =
     pageData (interpolate (nth_opt parts 0)) (interpolate (nth_opt parts 1)) targetAudience
       (csvQuery generationMode brandName businessType targetAudience parts)"

text \<open>The body of the \<open>for\<close> loop over the lines.\<close>

fun csvItems ::
  "jstring option \<Rightarrow> jstring option \<Rightarrow> jstring option \<Rightarrow> jstring \<Rightarrow> jstring list
     \<Rightarrow> work_item list" where
  "csvItems generationMode brandName businessType targetAudience [] = []"
| "csvItems generationMode brandName businessType targetAudience (l # ls) =
     (let line = trim l in
      if line = [] \<or> startsWith line (ascii ''url,'')
      then csvItems generationMode brandName businessType targetAudience ls
      else (let parts = map trim (splitOn 44 line) in
            if length parts \<ge> 2
            then csvItem generationMode brandName businessType targetAudience parts
                   # csvItems generationMode brandName businessType targetAudience ls
            else csvItems generationMode brandName businessType targetAudience ls))"

definition parseCSV ::
  "jstring \<Rightarrow> jstring option \<Rightarrow> jstring option \<Rightarrow> jstring option \<Rightarrow> jstring \<Rightarrow> work_item list" where
  "parseCSV csvText generationMode brandName businessType targetAudience =
     csvItems generationMode brandName businessType targetAudience (splitOn 10 (trim csvText))"

section \<open>Domain-list exports\<close>

text \<open>An entry of \<open>link_details\<close>, with the fields the exports read. A field is \<open>None\<close>
  when it is absent or \<open>null\<close>; \<open>risk_score\<close> is a JSON number.\<close>

record link =
  domain :: "jstring option"
  recommendation :: "jstring option"
  risk_score :: "rat option"

datatype download = Alerted jstring | Downloaded jstring

definition alertNoLinkData :: jstring where
  "alertNoLinkData =
     [1053, 1077, 1090, 32, 1076, 1072, 1085, 1085, 1099, 1093, 32, 1076, 1083, 1103, 32,
     1089, 1082, 1072, 1095, 1080, 1074, 1072, 1085, 1080, 1103]"

definition alertNoToxic :: jstring where
  "alertNoToxic =
     [1058, 1086, 1082, 1089, 1080, 1095, 1085, 1099, 1077, 32, 1076, 1086, 1084, 1077, 1085,
     1099, 32, 1085, 1077, 32, 1085, 1072, 1081, 1076, 1077, 1085, 1099]"

definition alertNoSuspicious :: jstring where
  "alertNoSuspicious =
     [1055, 1086, 1076, 1086, 1079, 1088, 1080, 1090, 1077, 1083, 1100, 1085, 1099, 1077, 32,
     1076, 1086, 1084, 1077, 1085, 1099, 32, 1085, 1077, 32, 1085, 1072, 1081, 1076, 1077,
     1085, 1099]"

definition toxicHeader :: jstring where
  "toxicHeader =
     [35, 32, 1058, 1086, 1082, 1089, 1080, 1095, 1085, 1099, 1077, 32, 1076, 1086, 1084,
     1077, 1085, 1099, 32, 1076, 1083, 1103, 32, 100, 105, 115, 97, 118, 111, 119, 10]"

definition suspiciousHeader :: jstring where
  "suspiciousHeader =
     [35, 32, 1055, 1086, 1076, 1086, 1079, 1088, 1080, 1090, 1077, 1083, 1100, 1085, 1099,
     1077, 32, 1076, 1086, 1084, 1077, 1085, 1099, 32, 40, 1088, 1077, 1082, 1086, 1084,
     1077, 1085, 1076, 1091, 1077, 1090, 1089, 1103, 32, 1087, 1088, 1086, 1074, 1077, 1088,
     1080, 1090, 1100, 32, 1074, 1088, 1091, 1095, 1085, 1091, 1102, 41, 10]"

text \<open>\<open>(link.recommendation || '').toLowerCase()\<close>\<close>

definition recommendationLower :: "link \<Rightarrow> jstring" where
  "recommendationLower l = toLowerCase (orElse (recommendation l) [])"

definition isToxicLink :: "link \<Rightarrow> bool" where
  "isToxicLink l =
     (recommendationLower l = ascii ''disavow''
      \<or> (case risk_score l of None \<Rightarrow> False | Some r \<Rightarrow> r \<ge> 50))"

definition isSuspiciousLink :: "link \<Rightarrow> bool" where
  "isSuspiciousLink l =
     (let rec = recommendationLower l;
          riskScore = (case risk_score l of None \<Rightarrow> 0 | Some r \<Rightarrow> r)
      in rec = ascii ''attention'' \<or> (rec \<noteq> ascii ''disavow'' \<and> riskScore \<ge> 30 \<and> riskScore < 50))"

text \<open>\<open>self.indexOf(x)\<close>, \<open>None\<close> for \<open>-1\<close>.\<close>

fun indexOf :: "'a list \<Rightarrow> 'a \<Rightarrow> nat option" where
  "indexOf [] x = None"
| "indexOf (y # ys) x = (if y = x then Some 0 else map_option Suc (indexOf ys x))"

text \<open>\<open>.filter((domain, index, self) => self.indexOf(domain) === index)\<close>\<close>

definition firstOccurrences :: "'a list \<Rightarrow> 'a list" where
  "firstOccurrences self =
     map fst (filter (\<lambda>(x, index). indexOf self x = Some index) (zip self [0..<length self]))"

text \<open>\<open>.map(link => link.domain).filter(domain => domain)\<close>, then the duplicates go.\<close>

definition uniqueDomains :: "link list \<Rightarrow> jstring list" where
  "uniqueDomains links =
     firstOccurrences (map interpolate (filter truthy (map domain links)))"

definition toxicDomains :: "link list \<Rightarrow> jstring list" where
  "toxicDomains currentLinkDetails = uniqueDomains (filter isToxicLink currentLinkDetails)"

definition suspiciousDomains :: "link list \<Rightarrow> jstring list" where
  "suspiciousDomains currentLinkDetails = uniqueDomains (filter isSuspiciousLink currentLinkDetails)"

fun joinWith :: "jstring \<Rightarrow> jstring list \<Rightarrow> jstring" where
  "joinWith sep [] = []"
| "joinWith sep [x] = x"
| "joinWith sep (x # y # ys) = x @ sep @ joinWith sep (y # ys)"

definition domainLines :: "jstring list \<Rightarrow> jstring" where
  "domainLines ds = joinWith [10] (map (\<lambda>d. ascii ''domain:'' @ d) ds)"

definition downloadToxicDomains :: "link list \<Rightarrow> download" where
  "downloadToxicDomains currentLinkDetails =
     (if currentLinkDetails = [] then Alerted alertNoLinkData
      else if toxicDomains currentLinkDetails = [] then Alerted alertNoToxic
      else Downloaded (toxicHeader @ domainLines (toxicDomains currentLinkDetails)))"

definition downloadSuspiciousDomains :: "link list \<Rightarrow> download" where
  "downloadSuspiciousDomains currentLinkDetails =
     (if currentLinkDetails = [] then Alerted alertNoLinkData
      else if suspiciousDomains currentLinkDetails = [] then Alerted alertNoSuspicious
      else Downloaded (suspiciousHeader @ domainLines (suspiciousDomains currentLinkDetails)))"


section \<open>Batch Orchestrator and Progress Channel\<close>

subsection \<open>What the server answers\<close>

datatype json =
    JNull
  | JBool bool
  | JNum rat
  | JStr jstring
  | JArr "json list"
  | JObj "(jstring \<times> json) list"

text \<open>A JavaScript computation either throws an error, of which the message is kept, or
  returns.\<close>

datatype 'a completion = Throws jstring | Returns 'a

text \<open>What \<open>fetch('/process', ...)\<close> and \<open>response.json()\<close> give for one item: the request
  is rejected, the status is not a success, the body is no JSON, or the body parses.\<close>

datatype response =
    FetchRejects jstring
  | NotOk
  | BadJson jstring
  | OkJson json

definition msgRequestFailed :: jstring where
  "msgRequestFailed =
     [1054, 1096, 1080, 1073, 1082, 1072, 32, 1086, 1073, 1088, 1072, 1073, 1086, 1090, 1082,
     1080, 32, 1079, 1072, 1087, 1088, 1086, 1089, 1072]"

definition msgUnknownError :: jstring where
  "msgUnknownError =
     [1053, 1077, 1080, 1079, 1074, 1077, 1089, 1090, 1085, 1072, 1103, 32, 1086, 1096, 1080,
     1073, 1082, 1072]"

definition msgErrorPrefix :: jstring where
  "msgErrorPrefix =
     [1054, 1096, 1080, 1073, 1082, 1072, 58, 32]"

text \<open>The messages of the two \<open>TypeError\<close>s below, in the wording of V8. Other engines
  word them differently; none leaves the message empty.\<close>

definition msgReadOfNull :: jstring where
  "msgReadOfNull = ascii ''Cannot read properties of null (reading '' @ [39]
     @ ascii ''validation'' @ [39] @ ascii '')''"

definition msgNotAFunction :: jstring where
  "msgNotAFunction = ascii ''result.validation.overall_score.toFixed is not a function''"

text \<open>\<open>v.key\<close> on a parsed JSON value, for a key that is no built-in property of strings,
  numbers, booleans and arrays: \<open>None\<close> is \<open>undefined\<close>. Reading a property of \<open>null\<close>
  throws. Of two members with one key, \<open>JSON.parse\<close> keeps the later.\<close>

definition getProp :: "json \<Rightarrow> jstring \<Rightarrow> json option completion" where
  "getProp v key =
     (case v of
        JNull \<Rightarrow> Throws msgReadOfNull
      | JObj members \<Rightarrow> Returns (map_of (rev members) key)
      | _ \<Rightarrow> Returns None)"

definition truthyJson :: "json option \<Rightarrow> bool" where
  "truthyJson v =
     (case v of
        None \<Rightarrow> False
      | Some JNull \<Rightarrow> False
      | Some (JBool b) \<Rightarrow> b
      | Some (JNum n) \<Rightarrow> n \<noteq> 0
      | Some (JStr s) \<Rightarrow> s \<noteq> []
      | Some _ \<Rightarrow> True)"

text \<open>
  The expression of the success log entries,
  \<open>result.validation && result.validation.overall_score ?
     result.validation.overall_score.toFixed(1) : '0'\<close>:
  whether it throws. The text it gives goes to the page only and is not modelled.
\<close>

definition formatScore :: "json \<Rightarrow> unit completion" where
  "formatScore result =
     (case getProp result (ascii ''validation'') of
        Throws m \<Rightarrow> Throws m
      | Returns validation \<Rightarrow>
          if \<not> truthyJson validation then Returns ()
          else (case getProp (case validation of Some v \<Rightarrow> v | None \<Rightarrow> JNull)
                       (ascii ''overall_score'') of
                  Throws m \<Rightarrow> Throws m
                | Returns overall_score \<Rightarrow>
                    if \<not> truthyJson overall_score then Returns ()
                    else (case overall_score of
                            Some (JNum n) \<Rightarrow> Returns ()
                          | _ \<Rightarrow> Throws msgNotAFunction)))"

subsection \<open>State and effects\<close>

text \<open>An entry of \<open>batchResults\<close>: \<open>{url, success: true, result}\<close> or
  \<open>{url, success: false, error}\<close>.\<close>

datatype item_outcome = Succeeded jstring json | Failed jstring jstring

fun outcomeUrl :: "item_outcome \<Rightarrow> jstring" where
  "outcomeUrl (Succeeded u r) = u"
| "outcomeUrl (Failed u e) = u"

fun success :: "item_outcome \<Rightarrow> bool" where
  "success (Succeeded u r) = True"
| "success (Failed u e) = False"

text \<open>
  The effects on the outside, in the order they happen. A WebSocket is named by the
  number of the session identifier it was opened with: the loop generates one identifier
  per item, so the socket of item \<open>i\<close> is socket \<open>i\<close>, and \<open>Fetch i p\<close> is the request for the
  page data \<open>p\<close> with that session identifier. Updates of the progress bar and of the log on
  the page are left out: the elements of the page are taken to exist, and creating a
  socket is taken not to throw.
\<close>

datatype event =
    Alert jstring
  | WsOpen nat
  | WsClose nat
  | Fetch nat work_item
  | Wait
  | DisplayResults json
  | DisplayBatchResults "item_outcome list"

text \<open>\<open>websocket\<close> is the global variable; \<open>batchResults\<close> is the array of the batch run.\<close>

record batch_state =
  websocket :: "nat option"
  batchResults :: "item_outcome list"
  trace :: "event list"

definition emit :: "event list \<Rightarrow> batch_state \<Rightarrow> batch_state" where
  "emit es st = st\<lparr>trace := trace st @ es\<rparr>"

text \<open>\<open>connectWebSocket(sessionId)\<close>\<close>

definition connectWebSocket :: "nat \<Rightarrow> batch_state \<Rightarrow> batch_state" where
  "connectWebSocket i st = emit [WsOpen i] (st\<lparr>websocket := Some i\<rparr>)"

text \<open>\<open>if (websocket) { websocket.close(); }\<close>\<close>

definition closeWebsocket :: "batch_state \<Rightarrow> batch_state" where
  "closeWebsocket st = (case websocket st of None \<Rightarrow> st | Some h \<Rightarrow> emit [WsClose h] st)"

definition pushOutcome :: "item_outcome \<Rightarrow> batch_state \<Rightarrow> batch_state" where
  "pushOutcome r st = st\<lparr>batchResults := batchResults st @ [r]\<rparr>"

subsection \<open>The single request\<close>

text \<open>\<open>processRequest\<close>: \<open>display r\<close> tells whether \<open>displayResults\<close> throws on the result
  \<open>r\<close>. The \<open>finally\<close> block closes the socket on every path.\<close>

definition processRequest ::
  "(json \<Rightarrow> unit completion) \<Rightarrow> response \<Rightarrow> work_item \<Rightarrow> batch_state \<Rightarrow> batch_state" where
  "processRequest display resp data st =
     (let st1 = emit [Fetch 0 data] (connectWebSocket 0 st);
          thrown = (case resp of
                      FetchRejects m \<Rightarrow> (st1, Some m)
                    | NotOk \<Rightarrow> (st1, Some msgRequestFailed)
                    | BadJson m \<Rightarrow> (st1, Some m)
                    | OkJson r \<Rightarrow>
                        (case display r of
                           Throws m \<Rightarrow> (st1, Some m)
                         | Returns _ \<Rightarrow> (emit [DisplayResults r] st1, None)));
          st2 = (case snd thrown of
                   Some m \<Rightarrow> emit [Alert (msgErrorPrefix @ m)] (fst thrown)
                 | None \<Rightarrow> fst thrown)
      in closeWebsocket st2)"

subsection \<open>The batch loop\<close>

text \<open>The \<open>try\<close> block of one iteration: the state it reaches and, when it throws, the
  message of the error.\<close>

definition tryBlock :: "response \<Rightarrow> nat \<Rightarrow> work_item \<Rightarrow> batch_state \<Rightarrow> batch_state \<times> jstring option" where
  "tryBlock resp i p st =
     (let st1 = emit [Fetch i p] (connectWebSocket i st)
      in case resp of
           FetchRejects m \<Rightarrow> (st1, Some m)
         | NotOk \<Rightarrow> (st1, Some msgRequestFailed)
         | BadJson m \<Rightarrow> (st1, Some m)
         | OkJson r \<Rightarrow>
             (let st2 = pushOutcome (Succeeded (url p) r) st1
              in case formatScore r of
                   Throws m \<Rightarrow> (st2, Some m)
                 | Returns _ \<Rightarrow> (closeWebsocket st2, None)))"

text \<open>The \<open>catch\<close> block: \<open>error.message || '...'\<close> goes into the failed outcome.\<close>

definition catchBlock :: "jstring \<Rightarrow> work_item \<Rightarrow> batch_state \<Rightarrow> batch_state" where
  "catchBlock m p st = pushOutcome (Failed (url p) (if m \<noteq> [] then m else msgUnknownError)) st"

text \<open>One iteration for the item \<open>p\<close> at index \<open>i\<close> of \<open>n\<close>. The pause between two items is the
  event \<open>Wait\<close>; its length, read from the form, is not modelled.\<close>

definition processItem :: "response \<Rightarrow> nat \<Rightarrow> nat \<Rightarrow> work_item \<Rightarrow> batch_state \<Rightarrow> batch_state" where
  "processItem resp i n p st =
     (let tried = tryBlock resp i p st;
          st1 = (case snd tried of Some m \<Rightarrow> catchBlock m p (fst tried) | None \<Rightarrow> fst tried)
      in if i + 1 < n then emit [Wait] st1 else st1)"

text \<open>\<open>for (let i = 0; i < batchData.length; i++)\<close>; \<open>server i\<close> is the answer to the
  request of item \<open>i\<close>.\<close>

function batchLoop :: "(nat \<Rightarrow> response) \<Rightarrow> work_item list \<Rightarrow> nat \<Rightarrow> batch_state \<Rightarrow> batch_state" where
  "batchLoop server batchData i st =
     (if i < length batchData
      then batchLoop server batchData (Suc i)
             (processItem (server i) i (length batchData) (batchData ! i) st)
      else st)"
  by pat_completeness auto
termination
  by (relation "measure (\<lambda>(server, batchData, i, st). length batchData - i)") auto

declare batchLoop.simps [simp del]

subsection \<open>The batch request\<close>

text \<open>The values of the form. \<open>batchInputType\<close> is the value of the checked radio button,
  \<open>None\<close> when none is checked; \<open>csvFile\<close> is the text of the selected file.\<close>

record form =
  form_batchInputType :: "jstring option"
  form_urlList :: "jstring option"
  form_keywordsList :: "jstring option"
  form_batchBrandName :: "jstring option"
  form_batchBusinessType :: "jstring option"
  form_batchTargetAudience :: "jstring option"
  form_batchData :: "jstring option"
  form_csvFile :: "jstring option"

definition alertNoUrlList :: jstring where
  "alertNoUrlList =
     [1055, 1086, 1078, 1072, 1083, 1091, 1081, 1089, 1090, 1072, 44, 32, 1074, 1074, 1077,
     1076, 1080, 1090, 1077, 32, 1089, 1087, 1080, 1089, 1086, 1082, 32, 85, 82, 76, 32,
     1089, 1090, 1088, 1072, 1085, 1080, 1094]"

definition alertNoCsvFile :: jstring where
  "alertNoCsvFile =
     [1055, 1086, 1078, 1072, 1083, 1091, 1081, 1089, 1090, 1072, 44, 32, 1074, 1099, 1073,
     1077, 1088, 1080, 1090, 1077, 32, 67, 83, 86, 32, 1092, 1072, 1081, 1083]"

definition alertNoManualText :: jstring where
  "alertNoManualText =
     [1055, 1086, 1078, 1072, 1083, 1091, 1081, 1089, 1090, 1072, 44, 32, 1074, 1074, 1077,
     1076, 1080, 1090, 1077, 32, 1076, 1072, 1085, 1085, 1099, 1077, 32, 1076, 1083, 1103,
     32, 1087, 1072, 1082, 1077, 1090, 1085, 1086, 1081, 32, 1086, 1073, 1088, 1072, 1073,
     1086, 1090, 1082, 1080]"

definition alertNoData :: jstring where
  "alertNoData =
     [1053, 1077, 32, 1085, 1072, 1081, 1076, 1077, 1085, 1086, 32, 1076, 1072, 1085, 1085,
     1099, 1093, 32, 1076, 1083, 1103, 32, 1086, 1073, 1088, 1072, 1073, 1086, 1090, 1082,
     1080]"

definition msgValueOfNull :: jstring where
  "msgValueOfNull = ascii ''Cannot read properties of null (reading '' @ [39]
     @ ascii ''value'' @ [39] @ ascii '')''"

text \<open>The three branches that fill \<open>batchData\<close>: the message of the alert, or the parsed
  items.\<close>

definition readBatchData :: "form \<Rightarrow> jstring \<Rightarrow> jstring option \<Rightarrow> jstring + work_item list" where
  "readBatchData f inputType generationMode =
     (let targetAudience = orElse (form_batchTargetAudience f) []
      in if inputType = ascii ''simple''
         then (if \<not> truthy (form_urlList f) then Inl alertNoUrlList
               else Inr (parseSimpleList (interpolate (form_urlList f)) (form_keywordsList f)
                           generationMode (form_batchBrandName f) (form_batchBusinessType f)
                           targetAudience))
         else if inputType = ascii ''csv''
         then (case form_csvFile f of
                 None \<Rightarrow> Inl alertNoCsvFile
               | Some csvText \<Rightarrow>
                   Inr (parseCSV csvText generationMode (form_batchBrandName f)
                          (form_batchBusinessType f) targetAudience))
         else (if \<not> truthy (form_batchData f) then Inl alertNoManualText
               else Inr (parseCSV (interpolate (form_batchData f)) generationMode
                           (form_batchBrandName f) (form_batchBusinessType f) targetAudience)))"

subsection \<open>Displaying the results of a batch\<close>

text \<open>\<open>v.key\<close> on a value that is not \<open>null\<close>.\<close>

definition readProp :: "json \<Rightarrow> jstring \<Rightarrow> json option" where
  "readProp v key = (case v of JObj members \<Rightarrow> map_of (rev members) key | _ \<Rightarrow> None)"

text \<open>
  Whether a parsed JSON value can be converted to a primitive (for a comparison with a
  number) or to a string (inside a template literal). An object whose own member
  \<open>toString\<close> hides the inherited method cannot, none of its members being a function; an
  array is joined, so each of its elements must convert.
\<close>

fun stringifies :: "json \<Rightarrow> bool" where
  "stringifies (JObj members) = (ascii ''toString'' \<notin> fst ` set members)"
| "stringifies (JArr elements) = list_all stringifies elements"
| "stringifies v = True"

definition msgNotPrimitive :: jstring where
  "msgNotPrimitive = ascii ''Cannot convert object to primitive value''"

definition msgScoreNotAFunction :: jstring where
  "msgScoreNotAFunction = ascii ''score.toFixed is not a function''"

definition msgReadabilityNotAFunction :: jstring where
  "msgReadabilityNotAFunction =
     ascii ''item.result.content.readability_score.toFixed is not a function''"

text \<open>\<open>r.a && r.a.b ? r.a.b : 'N/A'\<close> for a result \<open>r\<close> that is not \<open>null\<close>: the value of
  \<open>r.a.b\<close>, or \<open>None\<close> when the literal is taken.\<close>

definition pick :: "json \<Rightarrow> jstring \<Rightarrow> jstring \<Rightarrow> json option" where
  "pick r a b =
     (case readProp r a of
        None \<Rightarrow> None
      | Some v \<Rightarrow>
          if truthyJson (Some v) \<and> truthyJson (readProp v b) then readProp v b else None)"

text \<open>A value (or the literal, for \<open>None\<close>) inside the template literal.\<close>

definition interpolates :: "json option \<Rightarrow> unit completion" where
  "interpolates v =
     (case v of
        None \<Rightarrow> Returns ()
      | Some x \<Rightarrow> if stringifies x then Returns () else Throws msgNotPrimitive)"

text \<open>\<open>x.toFixed(1)\<close> inside the template literal, for a truthy \<open>x\<close> or the literal.\<close>

definition toFixed :: "jstring \<Rightarrow> json option \<Rightarrow> unit completion" where
  "toFixed message v =
     (case v of
        None \<Rightarrow> Returns ()
      | Some (JNum n) \<Rightarrow> Returns ()
      | Some _ \<Rightarrow> Throws message)"

definition andThen :: "unit completion \<Rightarrow> unit completion \<Rightarrow> unit completion" where
  "andThen a b = (case a of Throws m \<Rightarrow> Throws m | Returns _ \<Rightarrow> b)"

text \<open>
  The body of \<open>batchResults.forEach\<close> in \<open>displayBatchResults\<close>, for one entry: whether it
  throws. For a successful entry it reads \<open>item.result.validation\<close>, compares the score with
  80 and 60, and fills the template with \<open>score.toFixed(1)\<close>, the title, the word count,
  \<open>h1\<close>, the description and \<open>readability_score.toFixed(1)\<close>, in this order. The score is
  \<open>overall_score\<close> when that is truthy and the number 0 otherwise.
\<close>

definition displayItem :: "item_outcome \<Rightarrow> unit completion" where
  "displayItem item =
     (case item of
        Failed u e \<Rightarrow> Returns ()
      | Succeeded u r \<Rightarrow>
          (case getProp r (ascii ''validation'') of
             Throws m \<Rightarrow> Throws m
           | Returns validation \<Rightarrow>
               (let score = pick r (ascii ''validation'') (ascii ''overall_score'')
                in andThen (interpolates score)
                  (andThen (toFixed msgScoreNotAFunction score)
                  (andThen (interpolates (pick r (ascii ''meta_tags'') (ascii ''title'')))
                  (andThen (interpolates (pick r (ascii ''content'') (ascii ''word_count'')))
                  (andThen (interpolates (pick r (ascii ''meta_tags'') (ascii ''h1'')))
                  (andThen (interpolates (pick r (ascii ''meta_tags'') (ascii ''description'')))
                    (toFixed msgReadabilityNotAFunction
                       (pick r (ascii ''content'') (ascii ''readability_score'')))))))))))"

text \<open>\<open>displayBatchResults\<close>: the entries in order, up to the first that throws.\<close>

fun displayBatchResults :: "item_outcome list \<Rightarrow> unit completion" where
  "displayBatchResults [] = Returns ()"
| "displayBatchResults (item # items) = andThen (displayItem item) (displayBatchResults items)"

text \<open>\<open>processBatchRequest\<close>. An error thrown by \<open>displayBatchResults\<close> is not caught: the
  request ends with it, and the results are not displayed.\<close>

definition processBatchRequest ::
  "form \<Rightarrow> jstring option \<Rightarrow> (nat \<Rightarrow> response) \<Rightarrow> nat option \<Rightarrow> batch_state completion" where
  "processBatchRequest f generationMode server websocket0 =
     (let st0 = \<lparr>websocket = websocket0, batchResults = [], trace = []\<rparr>
      in case form_batchInputType f of
           None \<Rightarrow> Throws msgValueOfNull
         | Some inputType \<Rightarrow>
             (case readBatchData f inputType generationMode of
                Inl message \<Rightarrow> Returns (emit [Alert message] st0)
              | Inr items \<Rightarrow>
                  if length items = 0 then Returns (emit [Alert alertNoData] st0)
                  else (let st1 = batchLoop server items 0 st0
                        in case displayBatchResults (batchResults st1) of
                             Throws m \<Rightarrow> Throws m
                           | Returns _ \<Rightarrow>
                               Returns (emit [DisplayBatchResults (batchResults st1)] st1))))"

section \<open>The specification's notions\<close>

text \<open>The definitions of this section follow the words of the specification; the theorems
  below compare them with the functions of the program.\<close>

text \<open>The trimmed non-blank lines of a text, in order.\<close>

definition trimmedLines :: "jstring \<Rightarrow> jstring list" where
  "trimmedLines s = filter (\<lambda>l. l \<noteq> []) (map trim (splitOn 10 s))"

text \<open>The fields of a CSV line and the lines that give an item: those that do not start
  with \<open>url,\<close> and have at least two fields.\<close>

definition csvFields :: "jstring \<Rightarrow> jstring list" where
  "csvFields l = map trim (splitOn 44 l)"

definition acceptedLine :: "jstring \<Rightarrow> bool" where
  "acceptedLine l = (\<not> startsWith l (ascii ''url,'') \<and> 2 \<le> length (splitOn 44 l))"

definition acceptedLines :: "jstring \<Rightarrow> jstring list" where
  "acceptedLines csvText = filter acceptedLine (trimmedLines csvText)"

text \<open>The keywords of simple-list mode, as the program pairs them with the URLs: the trimmed
  non-blank lines of the keyword list. \<open>listTopic ks us i\<close> is the topic of URL \<open>i\<close> with the
  derived topic of the program.\<close>

definition keywordLines :: "jstring option \<Rightarrow> jstring list" where
  "keywordLines keywordsList = (case keywordsList of None \<Rightarrow> [] | Some k \<Rightarrow> trimmedLines k)"

definition listTopic :: "jstring list \<Rightarrow> jstring list \<Rightarrow> nat \<Rightarrow> jstring" where
  "listTopic ks us i = (if i < length ks then ks ! i else derivedTopic (us ! i))"

text \<open>
  The derived topic in the words of the specification: of the last path segment of the
  URL, every character that is not a Latin letter, a Cyrillic letter or a digit becomes a
  space; the result is trimmed, and \<open>Page\<close> stands for an empty one. The Latin letters are
  \<open>a-z\<close> and \<open>A-Z\<close>, the digits \<open>0-9\<close>, and the Cyrillic letters are the letters of the Unicode
  script Cyrillic in the Basic Multilingual Plane.
\<close>

definition latinLetter :: "jchar \<Rightarrow> bool" where
  "latinLetter c = ((97 \<le> c \<and> c \<le> 122) \<or> (65 \<le> c \<and> c \<le> 90))"

definition cyrillicLetter :: "jchar \<Rightarrow> bool" where
  "cyrillicLetter c = ((1024 \<le> c \<and> c \<le> 1153) \<or> (1162 \<le> c \<and> c \<le> 1327)
     \<or> (7296 \<le> c \<and> c \<le> 7304) \<or> c = 7467 \<or> c = 7544
     \<or> (42560 \<le> c \<and> c \<le> 42606) \<or> (42623 \<le> c \<and> c \<le> 42653))"

definition asciiDigit :: "jchar \<Rightarrow> bool" where
  "asciiDigit c = (48 \<le> c \<and> c \<le> 57)"

definition lastSegment :: "jstring \<Rightarrow> jstring" where
  "lastSegment u = last (splitOn 47 u)"

definition wordedTopic :: "jstring \<Rightarrow> jstring" where
  "wordedTopic u =
     (let t = trim (map (\<lambda>c. if latinLetter c \<or> cyrillicLetter c \<or> asciiDigit c then c else 32)
                     (lastSegment u))
      in if t = [] then ascii ''Page'' else t)"

text \<open>The last path segment holds no Cyrillic letter outside U+0410 - U+044F.\<close>

definition basicSegment :: "jstring \<Rightarrow> bool" where
  "basicSegment u = list_all (\<lambda>c. cyrillicLetter c \<longrightarrow> 1040 \<le> c \<and> c \<le> 1103) (lastSegment u)"

text \<open>The pairing by line number: the topic of URL \<open>i\<close> is the keyword on line \<open>i\<close> of the
  keyword list when that line is not blank, and the derived topic otherwise.\<close>

definition lineTopic :: "jstring option \<Rightarrow> nat \<Rightarrow> jstring \<Rightarrow> jstring" where
  "lineTopic keywordsList i u =
     (case keywordsList of
        None \<Rightarrow> wordedTopic u
      | Some k \<Rightarrow>
          (let ls = splitOn 10 k
           in if i < length ls \<and> trim (ls ! i) \<noteq> [] then trim (ls ! i) else wordedTopic u))"

text \<open>The instruction string of a row: a row value is the field of the row when there is
  one and it is not empty, else the value of the form, else the literal.\<close>

definition rowValue :: "jstring list \<Rightarrow> nat \<Rightarrow> jstring option \<Rightarrow> jstring \<Rightarrow> jstring" where
  "rowValue parts k formValue literal =
     (if k < length parts \<and> parts ! k \<noteq> [] then parts ! k else orElse formValue literal)"

definition instruction ::
  "jstring option \<Rightarrow> jstring option \<Rightarrow> jstring option \<Rightarrow> jstring \<Rightarrow> jstring list \<Rightarrow> jstring" where
  "instruction m b bt a parts =
     (if 3 \<le> length parts \<and> m = Some (ascii ''chatgpt'')
      then contentQuery (parts ! 0) (parts ! 1) (rowValue parts 2 b (ascii ''Brand''))
             (rowValue parts 3 bt (ascii ''general'')) a
      else if 3 \<le> length parts \<and> m = Some (ascii ''meta_only'')
      then metaQuery (parts ! 0) (parts ! 1) (rowValue parts 2 b (ascii ''Brand''))
             (rowValue parts 3 bt (ascii ''general'')) a
      else autoQuery (parts ! 0) (parts ! 1))"

text \<open>A link carries a tag when its recommendation, in lower case, is the tag. A domain
  has one rating in a list when all links of the list with that domain carry one tag and
  one score.\<close>

definition tagged :: "link \<Rightarrow> string \<Rightarrow> bool" where
  "tagged l tag = (recommendationLower l = ascii tag)"

definition untagged :: "link \<Rightarrow> bool" where
  "untagged l = (\<not> tagged l ''disavow'' \<and> \<not> tagged l ''attention'')"

definition sameRating :: "link \<Rightarrow> link \<Rightarrow> bool" where
  "sameRating l x = (recommendationLower l = recommendationLower x \<and> risk_score l = risk_score x)"

definition ratedAlike :: "link list \<Rightarrow> link \<Rightarrow> bool" where
  "ratedAlike details x = list_all (\<lambda>l. domain l = domain x \<longrightarrow> sameRating l x) details"

text \<open>A link of the domain \<open>x.com\<close> for the examples.\<close>

definition exampleLink :: "string \<Rightarrow> rat \<Rightarrow> link" where
  "exampleLink tag r =
     \<lparr>domain = Some (ascii ''x.com''), recommendation = Some (ascii tag), risk_score = Some r\<rparr>"

text \<open>The required input of the chosen input type is missing.\<close>

definition missingInput :: "form \<Rightarrow> jstring \<Rightarrow> bool" where
  "missingInput f inputType =
     (if inputType = ascii ''simple'' then \<not> truthy (form_urlList f)
      else if inputType = ascii ''csv'' then form_csvFile f = None
      else \<not> truthy (form_batchData f))"

text \<open>The one outcome an item is expected to give for an answer of the server, and the
  answers on which the success log entry can be written.\<close>

definition errorText :: "jstring \<Rightarrow> jstring" where
  "errorText m = (if m \<noteq> [] then m else msgUnknownError)"

fun outcomeOf :: "response \<Rightarrow> work_item \<Rightarrow> item_outcome" where
  "outcomeOf (OkJson r) p = Succeeded (url p) r"
| "outcomeOf NotOk p = Failed (url p) msgRequestFailed"
| "outcomeOf (FetchRejects m) p = Failed (url p) (errorText m)"
| "outcomeOf (BadJson m) p = Failed (url p) (errorText m)"

fun logsCleanly :: "response \<Rightarrow> bool" where
  "logsCleanly (OkJson r) = (formatScore r = Returns ())"
| "logsCleanly _ = True"

fun isFetch :: "event \<Rightarrow> bool" where
  "isFetch (Fetch i p) = True"
| "isFetch _ = False"

text \<open>A form in simple-list mode with the URL list \<open>urls\<close>, and the item parsed from the
  one-line list \<open>https://a.com/x\<close>.\<close>

definition exampleForm :: "jstring option \<Rightarrow> form" where
  "exampleForm urls =
     \<lparr>form_batchInputType = Some (ascii ''simple''), form_urlList = urls,
      form_keywordsList = None, form_batchBrandName = None, form_batchBusinessType = None,
      form_batchTargetAudience = None, form_batchData = None, form_csvFile = None\<rparr>"

definition exampleItem :: work_item where
  "exampleItem =
     \<lparr>url = ascii ''https://a.com/x'', topic = ascii ''x'', keyword = ascii ''x'', language = EN,
      target_audience = None, user_query = autoQuery (ascii ''https://a.com/x'') (ascii ''x'')\<rparr>"

section \<open>Lines of a text\<close>

lemma splitOn_not_Nil: "splitOn c s \<noteq> []"
  by (induction s) (auto split: list.splits)

lemma splitOn_snoc:
  "splitOn c (s @ [x]) =
     (if x = c then splitOn c s @ [[]]
      else butlast (splitOn c s) @ [last (splitOn c s) @ [x]])"
proof (induction s)
  case Nil
  show ?case by simp
next
  case (Cons a s)
  obtain y ys where P: "splitOn c s = y # ys"
    using splitOn_not_Nil [of c s] by (cases "splitOn c s") auto
  show ?case
    using Cons P by (auto split: list.splits)
qed

lemma trimEnd_snoc: "isSpace x \<Longrightarrow> trimEnd (s @ [x]) = trimEnd s"
  by (simp add: trimEnd_def)

lemma trim_Nil: "trim [] = []"
  by (simp add: trim_def trimStart_def trimEnd_def)

lemma trim_space_Cons: "isSpace x \<Longrightarrow> trim (x # s) = trim s"
  by (simp add: trim_def trimStart_def)

lemma trim_space_snoc: "isSpace x \<Longrightarrow> trim (s @ [x]) = trim s"
proof (induction s)
  case Nil
  then show ?case by (simp add: trim_def trimStart_def trimEnd_def)
next
  case (Cons a s)
  show ?case
  proof (cases "isSpace a")
    case True
    with Cons show ?thesis by (simp add: trim_space_Cons)
  next
    case False
    then have "trimStart ((a # s) @ [x]) = (a # s) @ [x]" "trimStart (a # s) = a # s"
      by (simp_all add: trimStart_def)
    then show ?thesis
      using Cons.prems by (simp add: trim_def trimEnd_snoc del: append_Cons)
  qed
qed

lemma trimmedLines_space_Cons: "isSpace x \<Longrightarrow> trimmedLines (x # s) = trimmedLines s"
proof -
  assume x: "isSpace x"
  obtain y ys where P: "splitOn 10 s = y # ys"
    using splitOn_not_Nil [of 10 s] by (cases "splitOn 10 s") auto
  show ?thesis
    using x P by (simp add: trimmedLines_def trim_space_Cons trim_Nil)
qed

lemma trimmedLines_trimStart: "trimmedLines (trimStart s) = trimmedLines s"
  by (induction s) (simp_all add: trimStart_def trimmedLines_space_Cons)

lemma trimmedLines_space_snoc: "isSpace x \<Longrightarrow> trimmedLines (s @ [x]) = trimmedLines s"
proof -
  assume x: "isSpace x"
  let ?P = "splitOn 10 s"
  have P: "?P = butlast ?P @ [last ?P]"
    using splitOn_not_Nil [of 10 s] by simp
  have "trimmedLines s = filter (\<lambda>l. l \<noteq> []) (map trim (butlast ?P @ [last ?P]))"
    unfolding trimmedLines_def using P by simp
  then show ?thesis
    using x by (simp add: trimmedLines_def splitOn_snoc trim_space_snoc trim_Nil)
qed

lemma trimmedLines_trimEnd: "trimmedLines (trimEnd s) = trimmedLines s"
proof (induction s rule: rev_induct)
  case Nil
  show ?case by (simp add: trimEnd_def)
next
  case (snoc x s)
  show ?case
  proof (cases "isSpace x")
    case True
    with snoc show ?thesis by (simp add: trimEnd_snoc trimmedLines_space_snoc)
  next
    case False
    then show ?thesis by (simp add: trimEnd_def)
  qed
qed

lemma trimmedLines_trim: "trimmedLines (trim s) = trimmedLines s"
  by (simp add: trim_def trimmedLines_trimEnd trimmedLines_trimStart)

lemma map_trim_nonBlank: "map trim (filter nonBlank ls) = filter (\<lambda>l. l \<noteq> []) (map trim ls)"
  by (simp add: filter_map comp_def nonBlank_def [abs_def])

lemma nonBlank_lines: "map trim (filter nonBlank (splitOn 10 (trim s))) = trimmedLines s"
  using trimmedLines_trim [of s] by (simp add: map_trim_nonBlank trimmedLines_def)

text \<open>The definitions that evaluate strings in the examples.\<close>

lemmas string_eval = ascii_def trim_def trimStart_def trimEnd_def isSpace_def trimmedLines_def

section \<open>CSV and manual-text mode\<close>

lemma csvItems_eq:
  "csvItems m b bt a ls =
     map (\<lambda>l. csvItem m b bt a (csvFields l)) (filter acceptedLine (filter (\<lambda>l. l \<noteq> []) (map trim ls)))"
  by (induction ls) (simp_all add: Let_def acceptedLine_def csvFields_def)

lemma parseCSV_eq:
  "parseCSV csvText m b bt a = map (\<lambda>l. csvItem m b bt a (csvFields l)) (acceptedLines csvText)"
  using trimmedLines_trim [of csvText]
  by (simp add: parseCSV_def csvItems_eq acceptedLines_def trimmedLines_def)

lemma nth_opt_eq: "nth_opt xs i = (if i < length xs then Some (xs ! i) else None)"
  by (induction xs i rule: nth_opt.induct) simp_all

lemma acceptedLine_fields: "l \<in> set (acceptedLines csvText) \<Longrightarrow> 2 \<le> length (csvFields l)"
  by (simp add: acceptedLines_def acceptedLine_def csvFields_def)

text \<open>
  Claim C5. For every text, \<open>parseCSV\<close> returns one work item for each trimmed non-blank
  line that does not start with \<open>url,\<close> and that splits on commas into at least two
  fields, in the order of the lines; its \<open>url\<close> and \<open>topic\<close> are the first two trimmed
  fields. Every other line (blank, header, fewer than two fields) gives no item.
\<close>

theorem parseCSV_accepted_lines:
  "parseCSV csvText m b bt a = map (\<lambda>l. csvItem m b bt a (csvFields l)) (acceptedLines csvText)
   \<and> length (parseCSV csvText m b bt a) = length (acceptedLines csvText)
   \<and> map url (parseCSV csvText m b bt a) = map (\<lambda>l. csvFields l ! 0) (acceptedLines csvText)
   \<and> map topic (parseCSV csvText m b bt a) = map (\<lambda>l. csvFields l ! 1) (acceptedLines csvText)"
proof -
  have u: "url (csvItem m b bt a (csvFields l)) = csvFields l ! 0"
    if "l \<in> set (acceptedLines csvText)" for l
    using acceptedLine_fields [OF that] by (auto simp: csvItem_def pageData_def nth_opt_eq interpolate_def)
  have t: "topic (csvItem m b bt a (csvFields l)) = csvFields l ! 1"
    if "l \<in> set (acceptedLines csvText)" for l
    using acceptedLine_fields [OF that] by (auto simp: csvItem_def pageData_def nth_opt_eq interpolate_def)
  show ?thesis
    using u t by (simp add: parseCSV_eq)
qed

section \<open>Simple-list mode\<close>

lemma trimmedLines_Nil: "trimmedLines [] = []"
  by (simp add: trimmedLines_def trim_Nil)

lemma derivedTopic_not_Nil: "derivedTopic u \<noteq> []"
  by (simp add: derivedTopic_def Let_def ascii_def)

lemma simpleTopic_nonBlank:
  "list_all nonBlank ks \<Longrightarrow>
     simpleTopic ks i u = (if i < length ks then trim (ks ! i) else derivedTopic u)"
  by (auto simp: simpleTopic_def nth_opt_eq list_all_length nonBlank_def trim_Nil)

lemma simpleItems_url:
  "list_all nonBlank us \<Longrightarrow> map url (simpleItems ks m b bt a i us) = map trim us"
  by (induction us arbitrary: i) (simp_all add: Let_def nonBlank_def pageData_def)

lemma simpleItems_topic:
  "list_all nonBlank us \<Longrightarrow>
     map topic (simpleItems ks m b bt a i us) =
       map (\<lambda>j. simpleTopic ks (i + j) (trim (us ! j))) [0..<length us]"
proof (induction us arbitrary: i)
  case Nil
  show ?case by simp
next
  case (Cons u us)
  have "map (\<lambda>j. simpleTopic ks (i + j) (trim ((u # us) ! j))) [0..<length (u # us)] =
        simpleTopic ks i (trim u) # map (\<lambda>j. simpleTopic ks (Suc i + j) (trim (us ! j))) [0..<length us]"
    by (simp add: map_upt_Suc del: upt_Suc)
  with Cons show ?case
    by (simp add: Let_def nonBlank_def pageData_def del: upt_Suc)
qed

lemma keywords_eq:
  "map trim (if truthy kl then filter nonBlank (splitOn 10 (trim (interpolate kl))) else []) = keywordLines kl"
  by (cases kl) (auto simp: truthy_def interpolate_def keywordLines_def nonBlank_lines trimmedLines_Nil)

text \<open>What the program computes: the trimmed non-blank URL lines, each with the keyword of
  the same rank among the trimmed non-blank keyword lines, or with the program's derived
  topic.\<close>

lemma parseSimpleList_program:
  "map url (parseSimpleList urlList keywordsList m b bt a) = trimmedLines urlList
   \<and> length (parseSimpleList urlList keywordsList m b bt a) = length (trimmedLines urlList)
   \<and> map topic (parseSimpleList urlList keywordsList m b bt a) =
       map (listTopic (keywordLines keywordsList) (trimmedLines urlList))
         [0..<length (trimmedLines urlList)]
   \<and> list_all (\<lambda>w. topic w \<noteq> []) (parseSimpleList urlList keywordsList m b bt a)"
proof -
  let ?us = "filter nonBlank (splitOn 10 (trim urlList))"
  let ?ks = "if truthy keywordsList
             then filter nonBlank (splitOn 10 (trim (interpolate keywordsList))) else []"
  let ?items = "parseSimpleList urlList keywordsList m b bt a"
  have items: "?items = simpleItems ?ks m b bt a 0 ?us"
    by (simp add: parseSimpleList_def Let_def)
  have us: "list_all nonBlank ?us" and ks: "list_all nonBlank ?ks"
    by (simp_all add: list_all_iff)
  have us_eq: "map trim ?us = trimmedLines urlList"
    by (rule nonBlank_lines)
  have len: "length ?us = length (trimmedLines urlList)"
    using us_eq by (metis length_map)
  have ks_eq: "map trim ?ks = keywordLines keywordsList"
    by (rule keywords_eq)
  have klen: "length ?ks = length (keywordLines keywordsList)"
    using ks_eq by (metis length_map)
  have urls: "map url ?items = trimmedLines urlList"
    using simpleItems_url [OF us] us_eq by (simp add: items)
  have "simpleTopic ?ks j (trim (?us ! j)) =
          listTopic (keywordLines keywordsList) (trimmedLines urlList) j"
    if "j < length ?us" for j
  proof -
    have "trim (?us ! j) = trimmedLines urlList ! j"
      using that us_eq by (metis nth_map)
    moreover have "trim (?ks ! j) = keywordLines keywordsList ! j" if "j < length ?ks"
      using that ks_eq by (metis nth_map)
    ultimately show ?thesis
      using klen by (simp add: simpleTopic_nonBlank [OF ks] listTopic_def)
  qed
  then have topics: "map topic ?items =
      map (listTopic (keywordLines keywordsList) (trimmedLines urlList))
        [0..<length (trimmedLines urlList)]"
    using simpleItems_topic [OF us, of ?ks m b bt a 0] len by (simp add: items)
  have "t \<noteq> []" if T: "t \<in> set (map topic ?items)" for t
  proof -
    obtain j where j: "t = listTopic (keywordLines keywordsList) (trimmedLines urlList) j"
      using T topics by auto
    have "k \<noteq> []" if K: "k \<in> set (keywordLines keywordsList)" for k
      using K by (cases keywordsList) (auto simp: keywordLines_def trimmedLines_def)
    then show ?thesis
      using j derivedTopic_not_Nil by (auto simp: listTopic_def)
  qed
  then have "list_all (\<lambda>w. topic w \<noteq> []) ?items"
    by (simp add: list_all_iff)
  with urls topics show ?thesis
    by (metis length_map)
qed

text \<open>Where the last segment holds no Cyrillic letter outside U+0410 - U+044F, the program's
  derived topic is the one of the specification's words.\<close>

lemma keptInTopic_ranges:
  "keptInTopic c \<longleftrightarrow> latinLetter c \<or> (1040 \<le> c \<and> c \<le> 1103) \<or> asciiDigit c"
  unfolding keptInTopic_def latinLetter_def asciiDigit_def by arith

lemma basic_cyrillicLetter: "1040 \<le> c \<and> c \<le> 1103 \<Longrightarrow> cyrillicLetter c"
  unfolding cyrillicLetter_def by arith

lemma keptInTopic_worded:
  "(cyrillicLetter c \<longrightarrow> 1040 \<le> c \<and> c \<le> 1103) \<Longrightarrow>
     keptInTopic c \<longleftrightarrow> latinLetter c \<or> cyrillicLetter c \<or> asciiDigit c"
  using basic_cyrillicLetter [of c] unfolding keptInTopic_ranges by blast

lemma derivedTopic_worded: "basicSegment u \<Longrightarrow> derivedTopic u = wordedTopic u"
proof -
  assume "basicSegment u"
  then have "keptInTopic c \<longleftrightarrow> latinLetter c \<or> cyrillicLetter c \<or> asciiDigit c"
    if "c \<in> set (lastSegment u)" for c
    using that keptInTopic_worded [of c] by (simp add: basicSegment_def list_all_iff)
  then have "replaceOthers (lastPart u) =
             map (\<lambda>c. if latinLetter c \<or> cyrillicLetter c \<or> asciiDigit c then c else 32) (lastSegment u)"
    by (simp add: replaceOthers_def lastPart_def lastSegment_def)
  then show ?thesis
    by (simp add: derivedTopic_def wordedTopic_def Let_def)
qed

text \<open>
  Claim C3, amended. For every URL list with \<open>N\<close> trimmed non-blank lines and every keyword
  list, \<open>parseSimpleList\<close> returns \<open>N\<close> work items, in the order of the lines, and no topic is
  empty. The topic of item \<open>i\<close> is the \<open>i\<close>-th of the trimmed non-blank keyword lines when
  there are more than \<open>i\<close> of them. Otherwise, when the last path segment of the URL holds no
  Cyrillic letter outside U+0410 - U+044F, it is the topic derived from that segment:
  every character that is not a Latin letter, a Cyrillic letter or a digit replaced by a
  space, trimmed, and \<open>Page\<close> when nothing is left.
\<close>

theorem parseSimpleList_items:
  "map url (parseSimpleList urlList keywordsList m b bt a) = trimmedLines urlList
   \<and> length (parseSimpleList urlList keywordsList m b bt a) = length (trimmedLines urlList)
   \<and> list_all (\<lambda>w. topic w \<noteq> []) (parseSimpleList urlList keywordsList m b bt a)
   \<and> (\<forall>i < length (trimmedLines urlList).
        (i < length (keywordLines keywordsList) \<longrightarrow>
           topic (parseSimpleList urlList keywordsList m b bt a ! i) = keywordLines keywordsList ! i)
      \<and> (length (keywordLines keywordsList) \<le> i \<and> basicSegment (trimmedLines urlList ! i) \<longrightarrow>
           topic (parseSimpleList urlList keywordsList m b bt a ! i)
             = wordedTopic (trimmedLines urlList ! i)))"
proof -
  let ?items = "parseSimpleList urlList keywordsList m b bt a"
  note P = parseSimpleList_program [of urlList keywordsList m b bt a]
  from P have len: "length ?items = length (trimmedLines urlList)"
    and topics: "map topic ?items =
      map (listTopic (keywordLines keywordsList) (trimmedLines urlList))
        [0..<length (trimmedLines urlList)]"
    by blast+
  have T: "topic (?items ! i) = listTopic (keywordLines keywordsList) (trimmedLines urlList) i"
    if I: "i < length (trimmedLines urlList)" for i
  proof -
    have "topic (?items ! i) = map topic ?items ! i"
      using len I by simp
    also have "\<dots> = listTopic (keywordLines keywordsList) (trimmedLines urlList) i"
      using I by (simp add: topics)
    finally show ?thesis .
  qed
  have "\<forall>i < length (trimmedLines urlList).
        (i < length (keywordLines keywordsList) \<longrightarrow>
           topic (?items ! i) = keywordLines keywordsList ! i)
      \<and> (length (keywordLines keywordsList) \<le> i \<and> basicSegment (trimmedLines urlList ! i) \<longrightarrow>
           topic (?items ! i) = wordedTopic (trimmedLines urlList ! i))"
    using T by (auto simp: listTopic_def derivedTopic_worded)
  with P show ?thesis
    by blast
qed

text \<open>The example of the specification: two URLs and two blank keyword lines.\<close>

theorem parseSimpleList_items_witness:
  "map topic (parseSimpleList (ascii ''https://x.com/blue-widgets'' @ [10] @ ascii ''https://x.com/q'')
      (Some [10]) None None None []) = [ascii ''blue widgets'', ascii ''q'']"
proof -
  let ?U = "ascii ''https://x.com/blue-widgets'' @ [10] @ ascii ''https://x.com/q''"
  let ?items = "parseSimpleList ?U (Some [10]) None None None []"
  have U: "trimmedLines ?U = [ascii ''https://x.com/blue-widgets'', ascii ''https://x.com/q'']"
    by (simp add: string_eval)
  have K: "keywordLines (Some [10]) = []"
    by (simp add: string_eval keywordLines_def)
  have B: "basicSegment (ascii ''https://x.com/blue-widgets'')" "basicSegment (ascii ''https://x.com/q'')"
    by (simp_all add: basicSegment_def lastSegment_def cyrillicLetter_def ascii_def)
  have W: "wordedTopic (ascii ''https://x.com/blue-widgets'') = ascii ''blue widgets''"
    "wordedTopic (ascii ''https://x.com/q'') = ascii ''q''"
    by (simp_all add: wordedTopic_def lastSegment_def latinLetter_def cyrillicLetter_def asciiDigit_def
        string_eval)
  note P = parseSimpleList_items [of ?U "Some [10]" None None None "[]", unfolded U K]
  have L: "length ?items = 2"
    using P by simp
  have "topic (?items ! 0) = ascii ''blue widgets''" "topic (?items ! 1) = ascii ''q''"
    using P B W by simp_all
  moreover obtain x y where "?items = [x, y]"
    using L by (auto simp: length_Suc_conv numeral_2_eq_2)
  ultimately show ?thesis
    by simp
qed

text \<open>
  The keyword lines are compacted before they are indexed, and the derivation keeps
  U+0410 - U+044F only. With the URLs \<open>u1\<close>, \<open>u2\<close> and a third that ends in the segment
  U+0457 U+0436 U+0430 U+043A, and the keyword list whose line 0 is blank and whose line 1
  is \<open>shoes\<close>, the program gives the topics \<open>shoes\<close>, \<open>u2\<close> and the segment without its first
  letter; the pairing by line number gives \<open>u1\<close>, \<open>shoes\<close> and the whole segment.
\<close>

theorem parseSimpleList_blank_keyword_line_counterexample:
  "map topic (parseSimpleList
       (ascii ''u1'' @ [10] @ ascii ''u2'' @ [10] @ ascii ''https://b.com/'' @ [1111, 1078, 1072, 1082])
       (Some ([10] @ ascii ''shoes'')) None None None [])
     = [ascii ''shoes'', ascii ''u2'', [1078, 1072, 1082]]
   \<and> [lineTopic (Some ([10] @ ascii ''shoes'')) 0 (ascii ''u1''),
       lineTopic (Some ([10] @ ascii ''shoes'')) 1 (ascii ''u2''),
       lineTopic (Some ([10] @ ascii ''shoes'')) 2 (ascii ''https://b.com/'' @ [1111, 1078, 1072, 1082])]
     = [ascii ''u1'', ascii ''shoes'', [1111, 1078, 1072, 1082]]"
  by (simp add: parseSimpleList_def Let_def simpleTopic_def truthy_def interpolate_def nonBlank_def
      pageData_def lineTopic_def wordedTopic_def lastSegment_def latinLetter_def cyrillicLetter_def
      asciiDigit_def string_eval derivedTopic_def lastPart_def replaceOthers_def keptInTopic_def)

section \<open>Instruction strings of CSV rows\<close>

lemma csvQuery_instruction:
  "2 \<le> length parts \<Longrightarrow> csvQuery m b bt a parts = instruction m b bt a parts"
  by (auto simp: csvQuery_def instruction_def rowValue_def nth_opt_eq interpolate_def orElse_def Let_def)

lemma phrasings_differ:
  "contentQuery u t brand business a \<noteq> autoQuery u' t'"
  "metaQuery u t brand business a \<noteq> autoQuery u' t'"
  by (simp_all add: contentQuery_def metaQuery_def autoQuery_def contentPrefix_def metaPrefix_def autoPrefix_def)

lemma parseCSV_user_query:
  "map user_query (parseCSV csvText m b bt a) =
     map (\<lambda>l. instruction m b bt a (csvFields l)) (acceptedLines csvText)"
proof -
  have "user_query (csvItem m b bt a (csvFields l)) = instruction m b bt a (csvFields l)"
    if L: "l \<in> set (acceptedLines csvText)" for l
    using csvQuery_instruction [OF acceptedLine_fields [OF L]] by (simp add: csvItem_def pageData_def)
  then show ?thesis
    by (simp add: parseCSV_eq)
qed

text \<open>
  Claim C9. The instruction string of the item of an accepted line is the auto-mode
  phrasing unless the line has at least three fields and the mode is \<open>chatgpt\<close> or
  \<open>meta_only\<close>; then it is the phrasing of that mode, with the brand and the business type
  taken from the row, from the form when the row field is empty or absent, and from the
  literals \<open>Brand\<close> and \<open>general\<close> otherwise. In particular a line of exactly two fields
  gets the auto-mode phrasing whatever the mode and the form say.
\<close>

theorem parseCSV_instruction:
  "map user_query (parseCSV csvText m b bt a) =
     map (\<lambda>l. instruction m b bt a (csvFields l)) (acceptedLines csvText)
   \<and> (\<forall>l \<in> set (acceptedLines csvText). length (csvFields l) = 2 \<longrightarrow>
         instruction m b bt a (csvFields l) = autoQuery (csvFields l ! 0) (csvFields l ! 1))"
  by (simp add: parseCSV_user_query instruction_def)

lemmas csv_eval = acceptedLines_def acceptedLine_def csvFields_def startsWith_def

theorem parseCSV_instruction_witness:
  "map user_query (parseCSV (ascii ''https://a.com,Shoes'') (Some (ascii ''chatgpt''))
       (Some (ascii ''BrandX'')) (Some (ascii ''retail'')) [])
     = [autoQuery (ascii ''https://a.com'') (ascii ''Shoes'')]"
  using parseCSV_instruction [of "ascii ''https://a.com,Shoes''" "Some (ascii ''chatgpt'')"
      "Some (ascii ''BrandX'')" "Some (ascii ''retail'')" "[]"]
  by (simp add: string_eval csv_eval)

text \<open>The example of the specification: a row of four fields in the mode \<open>chatgpt\<close>.\<close>

lemma parseCSV_example:
  "map user_query (parseCSV (ascii ''https://a.com,Shoes,BrandX,retail'') (Some (ascii ''chatgpt''))
       None None [])
     = [contentQuery (ascii ''https://a.com'') (ascii ''Shoes'') (ascii ''BrandX'') (ascii ''retail'') []]"
  using parseCSV_user_query [of "ascii ''https://a.com,Shoes,BrandX,retail''" "Some (ascii ''chatgpt'')"
      None None "[]"]
  by (simp add: string_eval csv_eval instruction_def rowValue_def)

section \<open>Language Detector\<close>

text \<open>
  Claim C8. For the empty text and for an undefined text \<open>detectLanguage\<close> returns \<open>uk\<close>.
\<close>

theorem detectLanguage_empty: "detectLanguage None = UK \<and> detectLanguage (Some []) = UK"
  by (simp add: detectLanguage_def)

lemma score_pos: "0 < score p q \<longleftrightarrow> p \<or> q"
  by (simp add: score_def)

text \<open>
  Claim C6. For every non-empty text, \<open>detectLanguage\<close> returns \<open>en\<close> if at least one English
  pattern matches and neither the Ukrainian nor the Russian character-range pattern
  matches; otherwise \<open>ru\<close> if the Russian score exceeds the Ukrainian score; otherwise \<open>uk\<close>.
\<close>

theorem detectLanguage_decision:
  "text \<noteq> [] \<Longrightarrow>
     detectLanguage (Some text) =
       (if (enPattern0 text \<or> enPattern1 text) \<and> \<not> ukPattern0 text \<and> \<not> ruPattern0 text then EN
        else if ruScore text > ukScore text then RU
        else if ukScore text > 0 then UK
        else UK)"
  by (simp add: detectLanguage_def enScore_def score_pos)

lemmas pattern_eval = enPattern0_def enPattern1_def ukPattern0_def ukPattern1_def ruPattern0_def
  ruPattern1_def testKeywords_def alternativesHere_def keywordHere_def wordBoundary_def isWordOpt_def
  isWordChar_def headOpt_def lastOpt_def canonicalize_def ukClass_def ruClass_def enClass_def
  isSpace_def ukKeywords_def ruKeywords_def enKeywords_def ascii_def ukScore_def ruScore_def score_def

theorem detectLanguage_decision_witness:
  "detectLanguage (Some (ascii ''buy shoes'')) = EN
   \<and> detectLanguage (Some [1105]) = RU
   \<and> detectLanguage (Some [1082, 1091, 1087, 1080, 1090, 1100]) = UK"
  using detectLanguage_decision [of "ascii ''buy shoes''"] detectLanguage_decision [of "[1105]"]
    detectLanguage_decision [of "[1082, 1091, 1087, 1080, 1090, 1100]"]
  by (simp add: pattern_eval)

section \<open>Domain-list exports\<close>

lemma indexOf_Some: "x \<in> set xs \<Longrightarrow> \<exists>i. indexOf xs x = Some i \<and> i < length xs \<and> xs ! i = x"
  by (induction xs) auto

lemma firstOccurrences_subset: "set (firstOccurrences xs) \<subseteq> set xs"
proof -
  let ?zs = "zip xs [0..<length xs]"
  have "set (firstOccurrences xs) \<subseteq> set (map fst ?zs)"
    unfolding firstOccurrences_def set_map by (rule image_mono) simp
  then show ?thesis
    by simp
qed

lemma firstOccurrences_superset: "set xs \<subseteq> set (firstOccurrences xs)"
proof
  fix x assume "x \<in> set xs"
  then obtain i where i: "indexOf xs x = Some i" "i < length xs" "xs ! i = x"
    using indexOf_Some [of x xs] by blast
  have "(x, i) \<in> set (zip xs [0..<length xs])"
    unfolding in_set_zip using i(2,3) by (intro exI [of _ i]) simp
  then have "(x, i) \<in> set (filter (\<lambda>(x, index). indexOf xs x = Some index) (zip xs [0..<length xs]))"
    using i(1) by simp
  then have "fst (x, i) \<in> fst ` set (filter (\<lambda>(x, index). indexOf xs x = Some index) (zip xs [0..<length xs]))"
    by (rule imageI)
  then show "x \<in> set (firstOccurrences xs)"
    by (simp add: firstOccurrences_def)
qed

lemma set_firstOccurrences: "set (firstOccurrences xs) = set xs"
  using firstOccurrences_subset firstOccurrences_superset by (rule equalityI)

lemma truthy_iff: "truthy v \<longleftrightarrow> (\<exists>d. v = Some d \<and> d \<noteq> [])"
  by (cases v) (simp_all add: truthy_def)

lemma set_uniqueDomains:
  "set (uniqueDomains links) = {d. d \<noteq> [] \<and> (\<exists>l \<in> set links. domain l = Some d)}"
proof -
  have "set (map interpolate (filter truthy (map domain links))) =
          {d. d \<noteq> [] \<and> (\<exists>l \<in> set links. domain l = Some d)}" (is "?L = ?R")
  proof
    show "?L \<subseteq> ?R"
    proof
      fix d assume "d \<in> ?L"
      then obtain l where l: "l \<in> set links" "truthy (domain l)" "d = interpolate (domain l)"
        by auto
      then obtain d' where "domain l = Some d'" "d' \<noteq> []"
        using truthy_iff by blast
      with l show "d \<in> ?R"
        by (simp add: interpolate_def) blast
    qed
    show "?R \<subseteq> ?L"
    proof
      fix d assume "d \<in> ?R"
      then obtain l where l: "l \<in> set links" "domain l = Some d" "d \<noteq> []"
        by auto
      then have "truthy (domain l)" "interpolate (domain l) = d"
        by (simp_all add: truthy_def interpolate_def)
      with l(1) show "d \<in> ?L"
        by force
    qed
  qed
  then show ?thesis
    by (simp add: uniqueDomains_def set_firstOccurrences)
qed

lemma in_toxicDomains:
  "d \<in> set (toxicDomains details) \<longleftrightarrow>
     d \<noteq> [] \<and> (\<exists>l \<in> set details. domain l = Some d \<and> isToxicLink l)"
  by (auto simp: toxicDomains_def set_uniqueDomains)

lemma in_suspiciousDomains:
  "d \<in> set (suspiciousDomains details) \<longleftrightarrow>
     d \<noteq> [] \<and> (\<exists>l \<in> set details. domain l = Some d \<and> isSuspiciousLink l)"
  by (auto simp: suspiciousDomains_def set_uniqueDomains)

lemma sameRating_toxic: "sameRating l x \<Longrightarrow> isToxicLink l = isToxicLink x"
  by (simp add: sameRating_def isToxicLink_def)

lemma sameRating_suspicious: "sameRating l x \<Longrightarrow> isSuspiciousLink l = isSuspiciousLink x"
  by (simp add: sameRating_def isSuspiciousLink_def)

lemma ratedAlike_toxic:
  assumes "ratedAlike details x" "x \<in> set details" "domain x = Some d" "d \<noteq> []"
  shows "d \<in> set (toxicDomains details) \<longleftrightarrow> isToxicLink x"
proof -
  have "isToxicLink l = isToxicLink x" if L: "l \<in> set details" "domain l = Some d" for l
    using L assms(1,3) sameRating_toxic [of l x] by (simp add: ratedAlike_def list_all_iff)
  with assms show ?thesis
    unfolding in_toxicDomains by blast
qed

lemma ratedAlike_suspicious:
  assumes "ratedAlike details x" "x \<in> set details" "domain x = Some d" "d \<noteq> []"
  shows "d \<in> set (suspiciousDomains details) \<longleftrightarrow> isSuspiciousLink x"
proof -
  have "isSuspiciousLink l = isSuspiciousLink x" if L: "l \<in> set details" "domain l = Some d" for l
    using L assms(1,3) sameRating_suspicious [of l x] by (simp add: ratedAlike_def list_all_iff)
  with assms show ?thesis
    unfolding in_suspiciousDomains by blast
qed

lemma tags_differ: "ascii ''attention'' \<noteq> ascii ''disavow''"
  by (simp add: ascii_def)

lemma toxic_iff:
  "isToxicLink x \<longleftrightarrow> tagged x ''disavow'' \<or> (\<exists>r. risk_score x = Some r \<and> 50 \<le> r)"
  by (cases "risk_score x") (simp_all add: isToxicLink_def tagged_def)

lemma suspicious_iff:
  "isSuspiciousLink x \<longleftrightarrow>
     tagged x ''attention'' \<or> (\<not> tagged x ''disavow'' \<and> (\<exists>r. risk_score x = Some r \<and> 30 \<le> r \<and> r < 50))"
  by (cases "risk_score x") (simp_all add: isSuspiciousLink_def tagged_def Let_def)


text \<open>
  Claim C2, amended. Take a domain that is not empty and has one rating in the list of
  link details. If its recommendation is \<open>disavow\<close>, it is in the toxic export whatever its
  score. If its score is 49.9 and it carries neither \<open>disavow\<close> nor \<open>attention\<close>, it is not in
  the toxic export and it is in the suspicious export. With neither tag, a score under 30
  keeps it out of both exports and a score from 30 up to but excluding 50 puts it in the
  suspicious export only. A score of at least 50 puts it in the toxic export.
\<close>

theorem risk_classification:
  assumes "x \<in> set details" and "domain x = Some d" and "d \<noteq> []" and "ratedAlike details x"
  shows "(tagged x ''disavow'' \<longrightarrow> d \<in> set (toxicDomains details))
     \<and> (risk_score x = Some (499 / 10) \<and> untagged x \<longrightarrow>
          d \<notin> set (toxicDomains details) \<and> d \<in> set (suspiciousDomains details))
     \<and> (\<forall>r. risk_score x = Some r \<and> r < 30 \<and> untagged x \<longrightarrow>
          d \<notin> set (toxicDomains details) \<and> d \<notin> set (suspiciousDomains details))
     \<and> (\<forall>r. risk_score x = Some r \<and> 30 \<le> r \<and> r < 50 \<and> untagged x \<longrightarrow>
          d \<notin> set (toxicDomains details) \<and> d \<in> set (suspiciousDomains details))
     \<and> (\<forall>r. risk_score x = Some r \<and> 50 \<le> r \<longrightarrow> d \<in> set (toxicDomains details))"
proof -
  have T: "d \<in> set (toxicDomains details) \<longleftrightarrow>
             tagged x ''disavow'' \<or> (\<exists>r. risk_score x = Some r \<and> 50 \<le> r)"
    using ratedAlike_toxic [OF assms(4,1,2,3)] by (simp add: toxic_iff)
  have S: "d \<in> set (suspiciousDomains details) \<longleftrightarrow>
             tagged x ''attention'' \<or>
             (\<not> tagged x ''disavow'' \<and> (\<exists>r. risk_score x = Some r \<and> 30 \<le> r \<and> r < 50))"
    using ratedAlike_suspicious [OF assms(4,1,2,3)] by (simp add: suspicious_iff)
  have c1: "tagged x ''disavow'' \<longrightarrow> d \<in> set (toxicDomains details)"
    unfolding T by simp
  have c3: "\<forall>r. risk_score x = Some r \<and> r < 30 \<and> untagged x \<longrightarrow>
          d \<notin> set (toxicDomains details) \<and> d \<notin> set (suspiciousDomains details)"
    unfolding T S untagged_def by auto
  have c4: "\<forall>r. risk_score x = Some r \<and> 30 \<le> r \<and> r < 50 \<and> untagged x \<longrightarrow>
          d \<notin> set (toxicDomains details) \<and> d \<in> set (suspiciousDomains details)"
    unfolding T S untagged_def by auto
  have c5: "\<forall>r. risk_score x = Some r \<and> 50 \<le> r \<longrightarrow> d \<in> set (toxicDomains details)"
    unfolding T by simp
  have "(30::rat) \<le> 499 / 10 \<and> (499 / 10 :: rat) < 50"
    by simp
  with c4 have c2: "risk_score x = Some (499 / 10) \<and> untagged x \<longrightarrow>
          d \<notin> set (toxicDomains details) \<and> d \<in> set (suspiciousDomains details)"
    by blast
  from c1 c2 c3 c4 c5 show ?thesis
    by (intro conjI)
qed

lemmas link_eval = exampleLink_def tagged_def recommendationLower_def toLowerCase_def lowerUnit_def
  orElse_def ascii_def

theorem risk_classification_witness:
  "ascii ''x.com'' \<notin> set (toxicDomains [exampleLink ''ok'' (499 / 10)])
   \<and> ascii ''x.com'' \<in> set (suspiciousDomains [exampleLink ''ok'' (499 / 10)])"
  using risk_classification [of "exampleLink ''ok'' (499 / 10)" "[exampleLink ''ok'' (499 / 10)]"
      "ascii ''x.com''"]
  by (simp add: link_eval ratedAlike_def sameRating_def untagged_def)

text \<open>A single untagged link with the score 49.9: the suspicious export is downloaded and
  lists its domain.\<close>

theorem score_49_9_exported_counterexample:
  "downloadSuspiciousDomains [\<lparr>domain = Some (ascii ''x.com''), recommendation = None, risk_score = Some (499 / 10)\<rparr>]
     = Downloaded (suspiciousHeader @ ascii ''domain:x.com'')"
  by (simp add: downloadSuspiciousDomains_def suspiciousDomains_def uniqueDomains_def firstOccurrences_def
      isSuspiciousLink_def recommendationLower_def toLowerCase_def orElse_def truthy_def interpolate_def
      domainLines_def ascii_def)

text \<open>
  Claim C10, amended. A link whose recommendation is \<open>disavow\<close>, in any mix of upper and lower
  case, never brings its domain into the suspicious export, whatever its score: a domain
  is in that export only through a link of it that is not so tagged. So a domain all of
  whose links are tagged \<open>disavow\<close> is never in the suspicious export; and the domain of a
  link tagged \<open>disavow\<close>, when it is not empty, is in the toxic export.
\<close>

theorem disavow_links_never_qualify:
  "(d \<in> set (suspiciousDomains details) \<longrightarrow>
      (\<exists>l \<in> set details. domain l = Some d \<and> \<not> tagged l ''disavow'' \<and> isSuspiciousLink l))
   \<and> (list_all (\<lambda>l. domain l = Some d \<longrightarrow> tagged l ''disavow'') details \<longrightarrow>
        d \<notin> set (suspiciousDomains details))
   \<and> (\<forall>x \<in> set details. tagged x ''disavow'' \<and> domain x = Some d \<and> d \<noteq> [] \<longrightarrow>
        d \<in> set (toxicDomains details))"
proof -
  have no: "\<not> isSuspiciousLink l" if "tagged l ''disavow''" for l
    using that tags_differ by (simp add: suspicious_iff tagged_def)
  have 1: "d \<in> set (suspiciousDomains details) \<longrightarrow>
      (\<exists>l \<in> set details. domain l = Some d \<and> \<not> tagged l ''disavow'' \<and> isSuspiciousLink l)"
    using no unfolding in_suspiciousDomains by blast
  have 2: "list_all (\<lambda>l. domain l = Some d \<longrightarrow> tagged l ''disavow'') details \<longrightarrow>
        d \<notin> set (suspiciousDomains details)"
    using no unfolding in_suspiciousDomains list_all_iff by blast
  have 3: "\<forall>x \<in> set details. tagged x ''disavow'' \<and> domain x = Some d \<and> d \<noteq> [] \<longrightarrow>
        d \<in> set (toxicDomains details)"
    unfolding in_toxicDomains toxic_iff by blast
  from 1 2 3 show ?thesis
    by (intro conjI)
qed

theorem disavow_links_never_qualify_witness:
  "ascii ''x.com'' \<notin> set (suspiciousDomains [exampleLink ''Disavow'' 40])
   \<and> ascii ''x.com'' \<in> set (toxicDomains [exampleLink ''Disavow'' 40])"
  using disavow_links_never_qualify [of "ascii ''x.com''" "[exampleLink ''Disavow'' 40]"]
  by (simp add: link_eval)

text \<open>A domain with a link tagged \<open>disavow\<close> and a link tagged \<open>ok\<close>, both of score 40: the
  suspicious export is downloaded and lists the domain.\<close>

theorem disavow_domain_exported_counterexample:
  "downloadSuspiciousDomains [exampleLink ''disavow'' 40, exampleLink ''ok'' 40]
     = Downloaded (suspiciousHeader @ ascii ''domain:x.com'')"
  by (simp add: downloadSuspiciousDomains_def suspiciousDomains_def uniqueDomains_def
      firstOccurrences_def isSuspiciousLink_def truthy_def interpolate_def domainLines_def link_eval)

section \<open>Batch Orchestrator\<close>

lemma msgRequestFailed_not_Nil: "msgRequestFailed \<noteq> []"
  by (simp add: msgRequestFailed_def)

text \<open>One iteration appends the expected outcome when the success log entry can be
  written, and two outcomes when writing it throws: the successful one is pushed before
  the entry is formatted, inside the \<open>try\<close> block, and the \<open>catch\<close> block pushes a failed one.
  The request of the item is issued in every case.\<close>

lemma processItem_results:
  "logsCleanly resp \<Longrightarrow>
     batchResults (processItem resp i n p st) = batchResults st @ [outcomeOf resp p]"
  by (cases resp)
     (simp_all add: processItem_def tryBlock_def catchBlock_def pushOutcome_def emit_def
        connectWebSocket_def closeWebsocket_def errorText_def msgRequestFailed_not_Nil Let_def)

lemma processItem_twice:
  "formatScore r = Throws m \<Longrightarrow>
     batchResults (processItem (OkJson r) i n p st) =
       batchResults st @ [Succeeded (url p) r, Failed (url p) (errorText m)]"
  by (simp add: processItem_def tryBlock_def catchBlock_def pushOutcome_def emit_def
        connectWebSocket_def errorText_def Let_def)

lemma processItem_fetch:
  "filter isFetch (trace (processItem resp i n p st)) = filter isFetch (trace st) @ [Fetch i p]"
  by (cases resp; cases "formatScore (case resp of OkJson r \<Rightarrow> r | _ \<Rightarrow> JNull)")
     (simp_all add: processItem_def tryBlock_def catchBlock_def pushOutcome_def emit_def
        connectWebSocket_def closeWebsocket_def Let_def)

lemma batchLoop_results:
  "(\<And>j. i \<le> j \<Longrightarrow> j < length items \<Longrightarrow> logsCleanly (server j)) \<Longrightarrow>
     batchResults (batchLoop server items i st) =
       batchResults st @ map (\<lambda>j. outcomeOf (server j) (items ! j)) [i..<length items]"
proof (induction server items i st rule: batchLoop.induct)
  case (1 server items i st)
  show ?case
  proof (cases "i < length items")
    case True
    have "batchResults (batchLoop server items (Suc i) (processItem (server i) i (length items) (items ! i) st)) =
          batchResults (processItem (server i) i (length items) (items ! i) st)
            @ map (\<lambda>j. outcomeOf (server j) (items ! j)) [Suc i..<length items]"
      using True "1.prems" by (intro "1.IH") simp_all
    moreover have "logsCleanly (server i)"
      using True "1.prems" by simp
    ultimately show ?thesis
      using True by (subst batchLoop.simps) (simp add: processItem_results upt_conv_Cons)
  next
    case False
    then show ?thesis
      by (subst batchLoop.simps) simp
  qed
qed

lemma batchLoop_fetches:
  "filter isFetch (trace (batchLoop server items i st)) =
     filter isFetch (trace st) @ map (\<lambda>j. Fetch j (items ! j)) [i..<length items]"
proof (induction server items i st rule: batchLoop.induct)
  case (1 server items i st)
  show ?case
  proof (cases "i < length items")
    case True
    with "1.IH" show ?thesis
      by (subst batchLoop.simps) (simp add: processItem_fetch upt_conv_Cons)
  next
    case False
    then show ?thesis
      by (subst batchLoop.simps) simp
  qed
qed


text \<open>When every success log entry can be written, the batch gives one outcome per item,
  in the order of the items; and whatever the server answers, every item is requested, in
  order.\<close>

lemma batch_outcomes_in_order:
  assumes "\<And>j. j < length items \<Longrightarrow> logsCleanly (server j)"
  shows "batchResults (batchLoop server items 0 \<lparr>websocket = ws, batchResults = [], trace = []\<rparr>) =
           map (\<lambda>j. outcomeOf (server j) (items ! j)) [0..<length items]"
    and "filter isFetch (trace (batchLoop server items 0 \<lparr>websocket = ws, batchResults = [], trace = []\<rparr>)) =
           map (\<lambda>j. Fetch j (items ! j)) [0..<length items]"
  using assms by (simp_all add: batchLoop_results batchLoop_fetches)

lemma exampleForm_items:
  "readBatchData (exampleForm (Some (ascii ''https://a.com/x''))) (ascii ''simple'') None = Inr [exampleItem]"
  by (simp add: readBatchData_def exampleForm_def truthy_def interpolate_def orElse_def
      parseSimpleList_def Let_def simpleTopic_def nonBlank_def pageData_def simpleQuery_def
      string_eval derivedTopic_def lastPart_def replaceOthers_def keptInTopic_def exampleItem_def
      detectLanguage_def enScore_def pattern_eval)

lemma batchLoop_one:
  "batchLoop server [p] 0 st = processItem (server 0) 0 1 p st"
  by (subst batchLoop.simps, simp, subst batchLoop.simps, simp)

lemmas item_eval = processItem_def tryBlock_def catchBlock_def pushOutcome_def emit_def
  connectWebSocket_def closeWebsocket_def Let_def

lemma formatScore_null: "formatScore JNull = Throws msgReadOfNull"
  by (simp add: formatScore_def getProp_def)

lemma displayItem_Failed: "displayItem (Failed u e) = Returns ()"
  by (simp add: displayItem_def)

lemma displayItem_null: "displayItem (Succeeded u JNull) = Throws msgReadOfNull"
  by (simp add: displayItem_def getProp_def)

text \<open>
  Claim C1 says that a batch of \<open>N\<close> items ends with \<open>N\<close> outcomes, one per item. The code
  does not keep this when the body of a successful answer is the JSON value \<open>null\<close>: for the
  batch of the single URL \<open>https://a.com/x\<close> the loop ends with two outcomes, a successful
  one with the result \<open>null\<close> and a failed one with the message of the \<open>TypeError\<close>. Displaying
  them throws on the first, so the request ends with that error.
\<close>

theorem null_body_gives_two_outcomes:
  "readBatchData (exampleForm (Some (ascii ''https://a.com/x''))) (ascii ''simple'') None
     = Inr [exampleItem]
   \<and> batchLoop (\<lambda>i. OkJson JNull) [exampleItem] 0 \<lparr>websocket = None, batchResults = [], trace = []\<rparr>
     = \<lparr>websocket = Some 0,
        batchResults = [Succeeded (ascii ''https://a.com/x'') JNull,
                        Failed (ascii ''https://a.com/x'') msgReadOfNull],
        trace = [WsOpen 0, Fetch 0 exampleItem]\<rparr>
   \<and> processBatchRequest (exampleForm (Some (ascii ''https://a.com/x''))) None (\<lambda>i. OkJson JNull) None
     = Throws msgReadOfNull"
proof -
  have m: "msgReadOfNull \<noteq> []"
    by (simp add: msgReadOfNull_def ascii_def)
  have ty: "form_batchInputType (exampleForm (Some (ascii ''https://a.com/x''))) = Some (ascii ''simple'')"
    by (simp add: exampleForm_def)
  have u: "url exampleItem = ascii ''https://a.com/x''"
    by (simp add: exampleItem_def)
  have loop: "batchLoop (\<lambda>i. OkJson JNull) [exampleItem] 0 \<lparr>websocket = None, batchResults = [], trace = []\<rparr>
     = \<lparr>websocket = Some 0,
        batchResults = [Succeeded (ascii ''https://a.com/x'') JNull,
                        Failed (ascii ''https://a.com/x'') msgReadOfNull],
        trace = [WsOpen 0, Fetch 0 exampleItem]\<rparr>"
    using m u by (simp add: batchLoop_one item_eval formatScore_null)
  have "processBatchRequest (exampleForm (Some (ascii ''https://a.com/x''))) None (\<lambda>i. OkJson JNull) None
     = Throws msgReadOfNull"
    using ty by (simp add: processBatchRequest_def exampleForm_items loop displayItem_null andThen_def)
  with loop show ?thesis
    by (simp add: exampleForm_items)
qed

text \<open>
  Claim C4 says that the WebSocket of an item is closed after the answer, also when the
  submission fails. In the batch loop only the end of the \<open>try\<close> block closes it: for the
  batch of the single URL \<open>https://a.com/x\<close> and an answer whose status is not a success,
  socket 0 is opened and the trace has no \<open>WsClose\<close>.
\<close>

theorem failed_item_leaves_socket_open:
  "processBatchRequest (exampleForm (Some (ascii ''https://a.com/x''))) None (\<lambda>i. NotOk) None =
     Returns \<lparr>websocket = Some 0,
       batchResults = [Failed (ascii ''https://a.com/x'') msgRequestFailed],
       trace = [WsOpen 0, Fetch 0 exampleItem,
                DisplayBatchResults [Failed (ascii ''https://a.com/x'') msgRequestFailed]]\<rparr>"
proof -
  have "form_batchInputType (exampleForm (Some (ascii ''https://a.com/x''))) = Some (ascii ''simple'')"
    by (simp add: exampleForm_def)
  moreover have "url exampleItem = ascii ''https://a.com/x''"
    by (simp add: exampleItem_def)
  ultimately show ?thesis
    by (simp add: processBatchRequest_def exampleForm_items batchLoop_one item_eval
        msgRequestFailed_not_Nil displayItem_Failed andThen_def)
qed

text \<open>In general: a failed item leaves its socket open, a successful one closes it, and
  the single request closes it on every path.\<close>

lemma failed_item_trace:
  "\<not> success (outcomeOf resp p) \<Longrightarrow>
     trace (processItem resp i n p st) =
       trace st @ [WsOpen i, Fetch i p] @ (if i + 1 < n then [Wait] else [])"
  by (cases resp) (simp_all add: item_eval)

lemma succeeded_item_trace:
  "logsCleanly (OkJson r) \<Longrightarrow>
     trace (processItem (OkJson r) i n p st) =
       trace st @ [WsOpen i, Fetch i p, WsClose i] @ (if i + 1 < n then [Wait] else [])"
  by (simp add: item_eval)

lemma processRequest_closes:
  "\<exists>es. trace (processRequest display resp data st) = trace st @ [WsOpen 0, Fetch 0 data] @ es @ [WsClose 0]"
  by (cases resp; cases "display (case resp of OkJson r \<Rightarrow> r | _ \<Rightarrow> JNull)")
     (simp_all add: processRequest_def item_eval)

section \<open>Pre-flight validation\<close>

lemma missingInput_alert:
  "missingInput f inputType \<Longrightarrow> \<exists>message. readBatchData f inputType m = Inl message"
  by (simp add: missingInput_def readBatchData_def Let_def split: if_splits)

text \<open>
  Claim C7. If the required input of the chosen input type is missing, or the parsed item
  list is empty, \<open>processBatchRequest\<close> shows one alert and returns: the trace holds the alert
  alone, so no socket is opened, no request is issued and no results are displayed, and
  there is no outcome.
\<close>

theorem preflight_stops:
  "form_batchInputType f = Some inputType \<Longrightarrow>
   missingInput f inputType \<or> readBatchData f inputType m = Inr [] \<Longrightarrow>
     \<exists>message. processBatchRequest f m server ws =
        Returns \<lparr>websocket = ws, batchResults = [], trace = [Alert message]\<rparr>"
proof -
  assume ty: "form_batchInputType f = Some inputType"
  assume "missingInput f inputType \<or> readBatchData f inputType m = Inr []"
  then show ?thesis
  proof
    assume "missingInput f inputType"
    then obtain message where "readBatchData f inputType m = Inl message"
      using missingInput_alert by blast
    with ty show ?thesis
      by (simp add: processBatchRequest_def emit_def)
  next
    assume "readBatchData f inputType m = Inr []"
    with ty show ?thesis
      by (simp add: processBatchRequest_def emit_def)
  qed
qed

theorem preflight_stops_witness:
  "processBatchRequest (exampleForm None) None (\<lambda>i. OkJson JNull) None =
        Returns \<lparr>websocket = None, batchResults = [], trace = [Alert alertNoUrlList]\<rparr>
   \<and> processBatchRequest (exampleForm (Some [32, 10, 32])) None (\<lambda>i. OkJson JNull) None =
        Returns \<lparr>websocket = None, batchResults = [], trace = [Alert alertNoData]\<rparr>"
proof -
  have blank: "readBatchData (exampleForm (Some [32, 10, 32])) (ascii ''simple'') None = Inr []"
    by (simp add: readBatchData_def exampleForm_def truthy_def interpolate_def orElse_def
        parseSimpleList_def Let_def nonBlank_def string_eval)
  have 1: "\<exists>message. processBatchRequest (exampleForm None) None (\<lambda>i. OkJson JNull) None =
        Returns \<lparr>websocket = None, batchResults = [], trace = [Alert message]\<rparr>"
    by (rule preflight_stops [of _ "ascii ''simple''"])
       (simp_all add: exampleForm_def missingInput_def truthy_def)
  have 2: "\<exists>message. processBatchRequest (exampleForm (Some [32, 10, 32])) None (\<lambda>i. OkJson JNull) None =
        Returns \<lparr>websocket = None, batchResults = [], trace = [Alert message]\<rparr>"
    by (rule preflight_stops [of _ "ascii ''simple''"]) (simp_all add: exampleForm_def blank [unfolded exampleForm_def])
  from 1 2 show ?thesis
    by (simp add: processBatchRequest_def exampleForm_def readBatchData_def truthy_def emit_def
        blank [unfolded exampleForm_def readBatchData_def truthy_def, simplified])
qed

end
